theory Spec2Isabelle
  imports Complex_Main
begin

section \<open>Values of the JavaScript runtime\<close>

text \<open>
  A request body is whatever JSON the client sent, so request data is modelled as an
  untyped value. Numbers of request bodies are integers printed in plain decimal
  (fractional numbers are outside this model). \<open>Undefined\<close> is the value of a
  missing property.
\<close>

datatype jsval =
    Undefined
  | Null
  | Bool bool
  | Num int
  | Str string
  | Arr "jsval list"
  | Obj "(string \<times> jsval) list"

text \<open>An exception carries the text of its \<open>message\<close> property.\<close>

datatype exn = Error (message: string) | TypeError (message: string)

text \<open>Truthiness, as \<open>||\<close>, \<open>?:\<close> and \<open>if\<close> test it.\<close>

fun truthy :: "jsval \<Rightarrow> bool" where
  "truthy Undefined = False"
| "truthy Null = False"
| "truthy (Bool b) = b"
| "truthy (Num n) = (n \<noteq> 0)"
| "truthy (Str s) = (s \<noteq> [])"
| "truthy (Arr xs) = True"
| "truthy (Obj fs) = True"

text \<open>
  \<open>field_of v k\<close> is the value of \<open>v.k\<close> when \<open>v\<close> is neither null nor undefined.
  The handlers read only properties that no built-in prototype defines (\<open>type\<close>,
  \<open>name\<close>, \<open>email\<close>, \<open>coupons\<close>, ...), so on a primitive or an array the
  value is undefined. An object is a list of bindings with pairwise distinct keys.
\<close>

fun field_of :: "jsval \<Rightarrow> string \<Rightarrow> jsval" where
  "field_of (Obj fs) k = (case map_of fs k of Some v \<Rightarrow> v | None \<Rightarrow> Undefined)"
| "field_of v k = Undefined"

text \<open>
  \<open>get_prop v k\<close> is the property read \<open>v.k\<close>: a TypeError when \<open>v\<close> is null
  or undefined.
\<close>

definition get_prop :: "jsval \<Rightarrow> string \<Rightarrow> exn + jsval" where
  "get_prop v k =
     (if v = Null then Inl (TypeError (''Cannot read properties of null (reading '' @ [CHR 39] @ k @ [CHR 39] @ '')''))
      else if v = Undefined then Inl (TypeError (''Cannot read properties of undefined (reading '' @ [CHR 39] @ k @ [CHR 39] @ '')''))
      else Inr (field_of v k))"

text \<open>
  \<open>destructure v k\<close> is \<open>const { k } = v\<close> where \<open>v\<close> is \<open>req.body\<close>: the same
  value, and a TypeError with another message when the body is null or undefined.
\<close>

definition destructure :: "jsval \<Rightarrow> string \<Rightarrow> exn + jsval" where
  "destructure v k =
     (if v = Null then
        Inl (TypeError (''Cannot destructure property '' @ [CHR 39] @ k @ [CHR 39]
                        @ '' of '' @ [CHR 39] @ ''req.body'' @ [CHR 39] @ '' as it is null.''))
      else if v = Undefined then
        Inl (TypeError (''Cannot destructure property '' @ [CHR 39] @ k @ [CHR 39]
                        @ '' of '' @ [CHR 39] @ ''req.body'' @ [CHR 39] @ '' as it is undefined.''))
      else Inr (field_of v k))"

section \<open>Coupons and the discount resolver\<close>

text \<open>
  A coupon is an object of the payments provider and so has the provider's shape:
  \<open>percent_off\<close> and \<open>max_redemptions\<close> may be null (\<open>None\<close>), \<open>times_redeemed\<close> is
  always a number, and \<open>metadata\<close> maps strings to strings; a key that is not set reads
  as undefined (\<open>None\<close>).
\<close>

record coupon =
  coupon_id :: string
  percent_off :: "rat option"
  max_redemptions :: "nat option"
  times_redeemed :: nat
  metadata :: "string \<rightharpoonup> string"

text \<open>
  \<open>getDiscount(coupons, email, domain)\<close>. The email is a string when the helper is
  reached (the callers have split it); the domain is the second piece of the split,
  undefined (\<open>None\<close>) when there is none. \<open>===\<close> between a metadata value and the
  email or domain is equality of these optional strings.
\<close>

definition getDiscount :: "coupon list \<Rightarrow> string \<Rightarrow> string option \<Rightarrow> coupon option" where
  "getDiscount coupons email domain =
     (let emailCoupons = filter (\<lambda>c. metadata c ''allowed_email'' = Some email) coupons;
          domainCoupons = filter (\<lambda>c. metadata c ''allowed_domain'' = domain) coupons;
          emailDiscount = List.find (\<lambda>c. metadata c ''allowed_email'' = Some email) emailCoupons
      in case emailDiscount of
           Some c \<Rightarrow> Some c
         | None \<Rightarrow>
            (let domainDiscount = List.find (\<lambda>c. metadata c ''allowed_domain'' = domain) domainCoupons
             in case domainDiscount of
                  Some c \<Rightarrow> Some c
                | None \<Rightarrow> None))"

section \<open>Splitting the email\<close>

text \<open>
  \<open>s.split(sep)\<close> for a one-character separator: the pieces between the separators,
  in order; a string without the separator is its own single piece.
\<close>

fun split_on :: "char \<Rightarrow> string \<Rightarrow> string list" where
  "split_on sep [] = [[]]"
| "split_on sep (c # cs) =
     (if c = sep then [] # split_on sep cs
      else (case split_on sep cs of
              [] \<Rightarrow> [[c]]
            | piece # pieces \<Rightarrow> (c # piece) # pieces))"

text \<open>\<open>email.split("@")[1]\<close>: the second piece, undefined when there is none.\<close>

definition emailDomain :: "string \<Rightarrow> string option" where
  "emailDomain email =
     (case split_on (CHR ''@'') email of
        _ # d # _ \<Rightarrow> Some d
      | _ \<Rightarrow> None)"

text \<open>
  The same expression on the request's \<open>email\<close> value, which need not be a string:
  only a string has a \<open>split\<close> method, every other value raises a TypeError.
\<close>

definition split_email :: "jsval \<Rightarrow> exn + string \<times> string option" where
  "split_email email =
     (case email of
        Str s \<Rightarrow> Inr (s, emailDomain s)
      | Undefined \<Rightarrow> Inl (TypeError ''Cannot read properties of undefined (reading 'split')'')
      | Null \<Rightarrow> Inl (TypeError ''Cannot read properties of null (reading 'split')'')
      | _ \<Rightarrow> Inl (TypeError ''email.split is not a function''))"

section \<open>Rendering values in template strings\<close>

function decimal :: "nat \<Rightarrow> string" where
  "decimal n =
     (if n < 10 then [''0123456789'' ! n]
      else decimal (n div 10) @ [''0123456789'' ! (n mod 10)])"
  by pat_completeness auto
termination
  by (relation "measure (\<lambda>n. n)") auto

fun join_comma :: "string list \<Rightarrow> string" where
  "join_comma [] = []"
| "join_comma [x] = x"
| "join_comma (x # y # ys) = x @ '','' @ join_comma (y # ys)"

text \<open>
  \<open>`${v}`\<close>: the string a template literal puts in for a value. An array prints its
  elements separated by commas, null and undefined elements as nothing.
\<close>

fun to_string :: "jsval \<Rightarrow> string" where
  "to_string Undefined = ''undefined''"
| "to_string Null = ''null''"
| "to_string (Bool b) = (if b then ''true'' else ''false'')"
| "to_string (Num n) = (if n < 0 then ''-'' @ decimal (nat (- n)) else decimal (nat n))"
| "to_string (Str s) = s"
| "to_string (Arr xs) =
     join_comma (map (\<lambda>x. if x = Null \<or> x = Undefined then [] else to_string x) xs)"
| "to_string (Obj fs) = ''[object Object]''"

text \<open>
  Converting a value to a string or a number first converts an object to a primitive, by
  its \<open>toString\<close> method. An object of a request body that binds the key \<open>toString\<close>
  hides the built-in method behind a value that cannot be called, and the conversion
  raises a TypeError; so does the conversion of an array that holds such an object.
\<close>

fun has_primitive :: "jsval \<Rightarrow> bool" where
  "has_primitive (Obj fs) = (map_of fs ''toString'' = None)"
| "has_primitive (Arr xs) = list_all has_primitive xs"
| "has_primitive v = True"

definition template_string :: "jsval \<Rightarrow> exn + string" where
  "template_string v =
     (if has_primitive v then Inr (to_string v)
      else Inl (TypeError ''Cannot convert object to primitive value''))"

text \<open>\<open>Array.isArray(v)\<close> and the elements of an array.\<close>

fun isArray :: "jsval \<Rightarrow> bool" where
  "isArray (Arr xs) = True"
| "isArray v = False"

fun elements :: "jsval \<Rightarrow> jsval list" where
  "elements (Arr xs) = xs"
| "elements v = []"

section \<open>Providers, requests and responses\<close>

text \<open>
  The process configuration the handlers read: the sender address, the price of the
  subscription plan and the front end's URL (an environment variable that may be unset).
\<close>

record config =
  senderEmail :: string
  subscriptionPriceId :: string
  frontendUrl :: "string option"

text \<open>One outgoing message of the invitation batch.\<close>

record email_message =
  msg_from :: string
  msg_to :: jsval
  msg_subject :: string
  msg_text :: string

text \<open>
  A number handed to the payments provider that the handler obtains by coercing a
  request value. The coercions are floating-point conversions of the runtime and stay
  unevaluated: \<open>NumberOf v\<close> is \<open>Number(v)\<close>, \<open>EpochSeconds v\<close> is
  \<open>Math.floor(new Date(v).getTime() / 1000)\<close>, \<open>Literal n\<close> is the constant \<open>n\<close>.
  \<open>to_number\<close> and \<open>epoch_seconds\<close> are the two coercions with the one way they
  raise.
\<close>

datatype numexpr = NumberOf jsval | EpochSeconds jsval | Literal int

definition to_number :: "jsval \<Rightarrow> exn + numexpr" where
  "to_number v =
     (if has_primitive v then Inr (NumberOf v)
      else Inl (TypeError ''Cannot convert object to primitive value''))"

definition epoch_seconds :: "jsval \<Rightarrow> exn + numexpr" where
  "epoch_seconds v =
     (if has_primitive v then Inr (EpochSeconds v)
      else Inl (TypeError ''Cannot convert object to primitive value''))"

text \<open>The argument of \<open>stripe.coupons.create\<close>; \<open>p_redeem_by\<close> is \<open>None\<close> when undefined.\<close>

record coupon_params =
  p_percent_off :: numexpr
  p_duration :: string
  p_max_redemptions :: numexpr
  p_redeem_by :: "numexpr option"
  p_name :: jsval
  p_metadata :: "(string \<times> jsval) list"

text \<open>
  The argument of \<open>stripe.checkout.sessions.create\<close>; \<open>cp_discounts\<close> is \<open>None\<close> when
  the property was never set, otherwise the list of coupon ids.
\<close>

record checkout_params =
  cp_payment_method_types :: "string list"
  cp_mode :: string
  cp_line_items :: "(string \<times> nat) list"
  cp_customer :: jsval
  cp_success_url :: "string option"
  cp_cancel_url :: string
  cp_discounts :: "string list option"

text \<open>What the subscription-status handler reads of the provider's objects.\<close>

record subscription_item =
  item_price_id :: string
  item_current_period_end :: nat

record subscription =
  sub_id :: string
  sub_status :: string
  sub_items :: "subscription_item list"

record price =
  price_product :: string

record product =
  product_name :: "string option"

text \<open>The calls a handler makes to the providers, in the order it makes them.\<close>

datatype call =
    BatchSend "email_message list"
  | CustomersCreate jsval jsval
  | CustomersDel jsval
  | SubscriptionsList string
  | PricesRetrieve "string option"
  | ProductsRetrieve string
  | CouponsList
  | CouponsCreate coupon_params
  | SessionsCreate checkout_params

text \<open>
  The providers are external: each operation takes the provider's state \<open>'w\<close> and
  returns the new state with either the exception it raised (\<open>Inl\<close>) or its result.
\<close>

record 'w provider =
  batch_send :: "email_message list \<Rightarrow> 'w \<Rightarrow> (exn + unit) \<times> 'w"
  customers_create :: "jsval \<Rightarrow> jsval \<Rightarrow> 'w \<Rightarrow> (exn + string) \<times> 'w"
  customers_del :: "jsval \<Rightarrow> 'w \<Rightarrow> (exn + unit) \<times> 'w"
  subscriptions_list :: "string \<Rightarrow> 'w \<Rightarrow> (exn + subscription list) \<times> 'w"
  prices_retrieve :: "string option \<Rightarrow> 'w \<Rightarrow> (exn + price) \<times> 'w"
  products_retrieve :: "string \<Rightarrow> 'w \<Rightarrow> (exn + product) \<times> 'w"
  coupons_list :: "'w \<Rightarrow> (exn + coupon list) \<times> 'w"
  coupons_create :: "coupon_params \<Rightarrow> 'w \<Rightarrow> (exn + unit) \<times> 'w"
  sessions_create :: "checkout_params \<Rightarrow> 'w \<Rightarrow> (exn + string option) \<times> 'w"

text \<open>
  A property of a JSON response: left out, null, or a value. A property whose value
  is undefined is left out when the response is serialised.
\<close>

datatype 'a field = Absent | IsNull | Value 'a

text \<open>One entry of the bulk import's \<open>errors\<close> list: \<open>{row, coupon, error}\<close>.\<close>

record error_entry =
  entry_row :: nat
  entry_coupon :: jsval
  entry_error :: string

text \<open>The body \<open>{created, failed, total, errors}\<close> of the bulk import.\<close>

record bulk_result =
  bulk_created :: nat
  bulk_failed :: nat
  bulk_total :: nat
  bulk_errors :: "error_entry list field"

text \<open>The inner object \<open>{discount, domain}\<close> of the discount preview.\<close>

record preview =
  preview_discount :: rat
  preview_domain :: "string field"

text \<open>The body \<open>{hasSubscription, status, currentPeriodEnd, planName, subscriptionId}\<close>.\<close>

record subscription_info =
  hasSubscription :: bool
  info_status :: "string field"
  currentPeriodEnd :: "nat field"
  planName :: "string field"
  subscriptionId :: "string field"

text \<open>The JSON bodies the handlers send.\<close>

datatype body =
    ErrorBody string
  | MessageBody string
  | CustomerIdBody string
  | SubscriptionBody subscription_info
  | SessionUrlBody "string option"
  | BulkBody bulk_result
  | DiscountBody "preview option"

datatype response = Response (status: nat) (body: body)

text \<open>
  A handler run ends with the response it sent (\<open>Inr\<close>) or with the exception that
  left the handler uncaught (\<open>Inl\<close>), together with the provider's state and the
  calls made.
\<close>

type_synonym 'w run = "(exn + response) \<times> 'w \<times> call list"

section \<open>The handlers\<close>

subsection \<open>POST /send-email\<close>

text \<open>
  The callback of \<open>payload.emailObjects.map\<close>: reading \<open>obj.email\<close> raises on null,
  and each \<open>${...}\<close> of the text may raise.
\<close>

definition build_email :: "config \<Rightarrow> jsval \<Rightarrow> exn + email_message" where
  "build_email cfg obj =
     (case get_prop obj ''email'' of
        Inl e \<Rightarrow> Inl e
      | Inr addr \<Rightarrow>
          (case template_string (field_of obj ''invitedBy'') of
             Inl e \<Rightarrow> Inl e
           | Inr invitedBy \<Rightarrow>
               (case template_string (field_of obj ''paper'') of
                  Inl e \<Rightarrow> Inl e
                | Inr paper \<Rightarrow>
                    (case template_string (field_of obj ''contributions'') of
                       Inl e \<Rightarrow> Inl e
                     | Inr contributions \<Rightarrow>
                         Inr \<lparr> msg_from = senderEmail cfg,
                               msg_to = addr,
                               msg_subject = ''Research Paper Invitation'',
                               msg_text =
                                 invitedBy
                                 @ '' added you as a co-author of the work '' @ [CHR 34]
                                 @ paper @ [CHR 34]
                                 @ '' with the following contribution: ''
                                 @ contributions
                                 @ ''. If you want to check the status of the publication, please follow this link <NO LINK YET>'' \<rparr>))))"

text \<open>\<open>xs.map(f)\<close> for a callback that may raise: the first exception ends the map.\<close>

fun map_raising :: "('a \<Rightarrow> exn + 'b) \<Rightarrow> 'a list \<Rightarrow> exn + 'b list" where
  "map_raising f [] = Inr []"
| "map_raising f (x # xs) =
     (case f x of
        Inl e \<Rightarrow> Inl e
      | Inr y \<Rightarrow> (case map_raising f xs of Inl e \<Rightarrow> Inl e | Inr ys \<Rightarrow> Inr (y # ys)))"

definition send_email :: "config \<Rightarrow> 'w provider \<Rightarrow> jsval \<Rightarrow> 'w \<Rightarrow> 'w run" where
  "send_email cfg prov payload w =
     (case get_prop payload ''emailObjects'' of
        Inl e \<Rightarrow> (Inl e, w, [])
      | Inr emailObjects \<Rightarrow>
          if \<not> isArray emailObjects \<or> length (elements emailObjects) < 1 then
            (Inr (Response 400 (ErrorBody ''Please provide list of emails to send email to'')), w, [])
          else
            (case map_raising (build_email cfg) (elements emailObjects) of
               Inl e \<Rightarrow> (Inl e, w, [])
             | Inr emails \<Rightarrow>
                 (case batch_send prov emails w of
                    (Inl e, w1) \<Rightarrow> (Inl e, w1, [BatchSend emails])
                  | (Inr _, w1) \<Rightarrow>
                      (Inr (Response 200 (MessageBody ''Emails has been sent'')), w1,
                       [BatchSend emails]))))"

subsection \<open>POST /create-customer and POST /delete-stripe-customer\<close>

definition create_customer :: "'w provider \<Rightarrow> jsval \<Rightarrow> 'w \<Rightarrow> 'w run" where
  "create_customer prov payload w =
     (case get_prop payload ''email'' of
        Inl e \<Rightarrow> (Inl e, w, [])
      | Inr email \<Rightarrow>
          (case customers_create prov email (field_of payload ''auth_id'') w of
             (Inl e, w1) \<Rightarrow> (Inl e, w1, [CustomersCreate email (field_of payload ''auth_id'')])
           | (Inr customer_id, w1) \<Rightarrow>
               (Inr (Response 200 (CustomerIdBody customer_id)), w1,
                [CustomersCreate email (field_of payload ''auth_id'')])))"

definition delete_stripe_customer :: "'w provider \<Rightarrow> jsval \<Rightarrow> 'w \<Rightarrow> 'w run" where
  "delete_stripe_customer prov payload w =
     (case destructure payload ''customerId'' of
        Inl e \<Rightarrow> (Inl e, w, [])
      | Inr customerId \<Rightarrow>
          (case customers_del prov customerId w of
             (Inr _, w1) \<Rightarrow>
               (Inr (Response 200 (MessageBody ''Stripe customer deleted successfully'')), w1,
                [CustomersDel customerId])
           | (Inl e, w1) \<Rightarrow>
               (Inr (Response 500 (ErrorBody ''Failed to delete stripe customer'')), w1,
                [CustomersDel customerId])))"

subsection \<open>GET /subscription-status/:customerId\<close>

text \<open>
  The whole handler is inside one \<open>try\<close>. \<open>items.data[0]?.price.id\<close> is undefined
  when the subscription has no item; \<open>items.data[0].current_period_end\<close>, read while
  the response is built, raises a TypeError then, which the \<open>catch\<close> turns into the 500.
\<close>

definition subscription_status :: "'w provider \<Rightarrow> string \<Rightarrow> 'w \<Rightarrow> 'w run" where
  "subscription_status prov customerId w =
     (let failure = Response 500 (ErrorBody ''Failed to fetch subscription status'') in
      case subscriptions_list prov customerId w of
        (Inl e, w1) \<Rightarrow> (Inr failure, w1, [SubscriptionsList customerId])
      | (Inr subscriptions, w1) \<Rightarrow>
          (case subscriptions of
             [] \<Rightarrow>
               (Inr (Response 200 (SubscriptionBody
                  \<lparr> hasSubscription = False, info_status = IsNull, currentPeriodEnd = IsNull,
                    planName = IsNull, subscriptionId = Absent \<rparr>)),
                w1, [SubscriptionsList customerId])
           | subscription # _ \<Rightarrow>
               (let priceId = (case sub_items subscription of
                                 [] \<Rightarrow> None
                               | item # _ \<Rightarrow> Some (item_price_id item))
                in case prices_retrieve prov priceId w1 of
                     (Inl e, w2) \<Rightarrow>
                       (Inr failure, w2, [SubscriptionsList customerId, PricesRetrieve priceId])
                   | (Inr price, w2) \<Rightarrow>
                       (let calls = [SubscriptionsList customerId, PricesRetrieve priceId,
                                     ProductsRetrieve (price_product price)]
                        in case products_retrieve prov (price_product price) w2 of
                             (Inl e, w3) \<Rightarrow> (Inr failure, w3, calls)
                           | (Inr product, w3) \<Rightarrow>
                               (case sub_items subscription of
                                  [] \<Rightarrow> (Inr failure, w3, calls)
                                | item # _ \<Rightarrow>
                                    (Inr (Response 200 (SubscriptionBody
                                       \<lparr> hasSubscription = True,
                                         info_status = Value (sub_status subscription),
                                         currentPeriodEnd = Value (item_current_period_end item),
                                         planName = Value
                                           (case product_name product of
                                              None \<Rightarrow> ''Unknown Plan''
                                            | Some n \<Rightarrow> if n = [] then ''Unknown Plan'' else n),
                                         subscriptionId = Value (sub_id subscription) \<rparr>)),
                                     w3, calls))))))"

subsection \<open>POST /discounts\<close>

text \<open>
  No \<open>try\<close> surrounds this handler. \<open>percent_off / 100\<close> on a null \<open>percent_off\<close>
  is 0. The division is exact here; the runtime rounds it to a double.
\<close>

definition discounts :: "'w provider \<Rightarrow> jsval \<Rightarrow> 'w \<Rightarrow> 'w run" where
  "discounts prov payload w =
     (case destructure payload ''email'' of
        Inl e \<Rightarrow> (Inl e, w, [])
      | Inr email_value \<Rightarrow>
          (case split_email email_value of
             Inl e \<Rightarrow> (Inl e, w, [])
           | Inr (email, domain) \<Rightarrow>
               (case coupons_list prov w of
                  (Inl e, w1) \<Rightarrow> (Inl e, w1, [CouponsList])
                | (Inr coupons, w1) \<Rightarrow>
                    (case getDiscount coupons email domain of
                       None \<Rightarrow> (Inr (Response 200 (DiscountBody None)), w1, [CouponsList])
                     | Some discount \<Rightarrow>
                         if max_redemptions discount = Some (times_redeemed discount) then
                           (Inr (Response 200 (DiscountBody None)), w1, [CouponsList])
                         else
                           (Inr (Response 200 (DiscountBody (Some
                              \<lparr> preview_discount =
                                  (case percent_off discount of None \<Rightarrow> 0 | Some p \<Rightarrow> p) / 100,
                                preview_domain =
                                  (case metadata discount ''allowed_domain'' of
                                     None \<Rightarrow> Absent
                                   | Some d \<Rightarrow> Value d) \<rparr>))),
                            w1, [CouponsList])))))"

subsection \<open>POST /create-checkout-session\<close>

text \<open>
  Only the creation of the session is inside the \<open>try\<close>. The variant of the server
  without the identity provider writes the price and the two URLs as literals; the rest
  of the handler is the same.
\<close>

definition create_checkout_session :: "config \<Rightarrow> 'w provider \<Rightarrow> jsval \<Rightarrow> 'w \<Rightarrow> 'w run" where
  "create_checkout_session cfg prov payload w =
     (case destructure payload ''email'' of
        Inl e \<Rightarrow> (Inl e, w, [])
      | Inr email_value \<Rightarrow>
          (case split_email email_value of
             Inl e \<Rightarrow> (Inl e, w, [])
           | Inr (email, domain) \<Rightarrow>
               (case coupons_list prov w of
                  (Inl e, w1) \<Rightarrow> (Inl e, w1, [CouponsList])
                | (Inr coupons, w1) \<Rightarrow>
                    (let discount = getDiscount coupons email domain;
                         checkoutParams =
                           \<lparr> cp_payment_method_types = [''card''],
                             cp_mode = ''subscription'',
                             cp_line_items = [(subscriptionPriceId cfg, 1)],
                             cp_customer = field_of payload ''customerId'',
                             cp_success_url = frontendUrl cfg,
                             cp_cancel_url =
                               (case frontendUrl cfg of None \<Rightarrow> ''undefined'' | Some u \<Rightarrow> u)
                               @ ''/pricing?error=true'',
                             cp_discounts = None \<rparr>;
                         checkoutParams =
                           (case discount of
                              None \<Rightarrow> checkoutParams
                            | Some c \<Rightarrow> checkoutParams \<lparr> cp_discounts := Some [coupon_id c] \<rparr>)
                     in case sessions_create prov checkoutParams w1 of
                          (Inr url, w2) \<Rightarrow>
                            (Inr (Response 200 (SessionUrlBody url)), w2,
                             [CouponsList, SessionsCreate checkoutParams])
                        | (Inl e, w2) \<Rightarrow>
                            (Inr (Response 500 (SessionUrlBody None)), w2,
                             [CouponsList, SessionsCreate checkoutParams])))))"

subsection \<open>POST /coupons/bulk\<close>

text \<open>The counters and the list the loop of the bulk import updates.\<close>

record bulk_acc =
  created :: nat
  failed :: nat
  errors :: "error_entry list"

text \<open>
  The body of the inner \<open>try\<close> for one row. \<open>Inr ()\<close> is the normal end, after
  \<open>created++\<close>; \<open>Inl e\<close> is the exception \<open>e\<close> raised: by reading \<open>coupon.expiresAt\<close>
  of a null row, by a conversion, by the provider, or by the \<open>throw\<close> of the last branch.
\<close>

definition try_row :: "'w provider \<Rightarrow> jsval \<Rightarrow> 'w \<Rightarrow> (exn + unit) \<times> 'w \<times> call list" where
  "try_row prov coupon w =
     (case get_prop coupon ''expiresAt'' of
        Inl e \<Rightarrow> (Inl e, w, [])
      | Inr expiresAt \<Rightarrow>
          (case (if truthy expiresAt then map_sum (\<lambda>e. e) Some (epoch_seconds expiresAt)
                 else Inr None) of
             Inl e \<Rightarrow> (Inl e, w, [])
           | Inr redeemBy \<Rightarrow>
               if field_of coupon ''type'' = Str ''domain'' then
                 (case to_number (field_of coupon ''discountPercent'') of
                    Inl e \<Rightarrow> (Inl e, w, [])
                  | Inr percent \<Rightarrow>
                      (case to_number (field_of coupon ''maxSeats'') of
                         Inl e \<Rightarrow> (Inl e, w, [])
                       | Inr seats \<Rightarrow>
                           (let params =
                                  \<lparr> p_percent_off = percent,
                                    p_duration = ''forever'',
                                    p_max_redemptions = seats,
                                    p_redeem_by = redeemBy,
                                    p_name = field_of coupon ''name'',
                                    p_metadata = [(''allowed_domain'', field_of coupon ''domain'')] \<rparr>
                            in case coupons_create prov params w of
                                 (Inl e, w1) \<Rightarrow> (Inl e, w1, [CouponsCreate params])
                               | (Inr _, w1) \<Rightarrow> (Inr (), w1, [CouponsCreate params]))))
               else if field_of coupon ''type'' = Str ''email'' then
                 (case to_number (field_of coupon ''discountPercent'') of
                    Inl e \<Rightarrow> (Inl e, w, [])
                  | Inr percent \<Rightarrow>
                      (let params =
                             \<lparr> p_percent_off = percent,
                               p_duration = ''forever'',
                               p_max_redemptions = Literal 1,
                               p_redeem_by = redeemBy,
                               p_name = field_of coupon ''name'',
                               p_metadata = [(''allowed_email'', field_of coupon ''email'')] \<rparr>
                       in case coupons_create prov params w of
                            (Inl e, w1) \<Rightarrow> (Inl e, w1, [CouponsCreate params])
                          | (Inr _, w1) \<Rightarrow> (Inr (), w1, [CouponsCreate params])))
               else
                 (case template_string (field_of coupon ''type'') of
                    Inl e \<Rightarrow> (Inl e, w, [])
                  | Inr shown \<Rightarrow> (Inl (Error (''Invalid coupon type: '' @ shown)), w, []))))"

text \<open>
  The inner \<open>catch\<close> for row \<open>i\<close> (counted from 0): \<open>failed++\<close>, then the entry is
  pushed. Building the entry reads \<open>coupon.name\<close>, which raises on a null row; that
  exception leaves the loop.
\<close>

definition catch_row :: "nat \<Rightarrow> jsval \<Rightarrow> exn \<Rightarrow> bulk_acc \<Rightarrow> exn + bulk_acc" where
  "catch_row i coupon error acc =
     (let acc1 = acc \<lparr> failed := failed acc + 1 \<rparr> in
      case get_prop coupon ''name'' of
        Inl e \<Rightarrow> Inl e
      | Inr name \<Rightarrow>
          Inr (acc1 \<lparr> errors := errors acc1 @
                 [\<lparr> entry_row = i + 1,
                    entry_coupon = (if truthy name then name else Str (''Row '' @ decimal (i + 1))),
                    entry_error = message error \<rparr>] \<rparr>))"

text \<open>\<open>for (let i = 0; i < coupons.length; i++)\<close>, entered at index \<open>i\<close>.\<close>

function bulk_loop ::
  "'w provider \<Rightarrow> jsval list \<Rightarrow> nat \<Rightarrow> bulk_acc \<Rightarrow> 'w \<Rightarrow> call list \<Rightarrow> (exn + bulk_acc) \<times> 'w \<times> call list"
where
  "bulk_loop prov coupons i acc w calls =
     (if i < length coupons then
        (case try_row prov (coupons ! i) w of
           (Inr _, w1, cs) \<Rightarrow>
             bulk_loop prov coupons (i + 1) (acc \<lparr> created := created acc + 1 \<rparr>) w1 (calls @ cs)
         | (Inl error, w1, cs) \<Rightarrow>
             (case catch_row i (coupons ! i) error acc of
                Inl e \<Rightarrow> (Inl e, w1, calls @ cs)
              | Inr acc1 \<Rightarrow> bulk_loop prov coupons (i + 1) acc1 w1 (calls @ cs)))
      else (Inr acc, w, calls))"
  by pat_completeness auto
termination
  by (relation "measure (\<lambda>(prov, coupons, i, acc, w, calls). length coupons - i)") auto

text \<open>
  The handler: the outer \<open>try\<close> around everything, the check of the list, the loop and
  the summary. \<open>errors\<close> is undefined, and so left out of the JSON, when the list is empty.
\<close>

definition coupons_bulk :: "'w provider \<Rightarrow> jsval \<Rightarrow> 'w \<Rightarrow> 'w run" where
  "coupons_bulk prov payload w =
     (case destructure payload ''coupons'' of
        Inl e \<Rightarrow> (Inr (Response 500 (ErrorBody (message e))), w, [])
      | Inr coupons \<Rightarrow>
          if \<not> isArray coupons \<or> length (elements coupons) = 0 then
            (Inr (Response 400 (ErrorBody ''Please provide an array of coupons'')), w, [])
          else
            (case bulk_loop prov (elements coupons) 0 \<lparr> created = 0, failed = 0, errors = [] \<rparr> w [] of
               (Inl e, w1, calls) \<Rightarrow> (Inr (Response 500 (ErrorBody (message e))), w1, calls)
             | (Inr acc, w1, calls) \<Rightarrow>
                 (Inr (Response 200 (BulkBody
                    \<lparr> bulk_created = created acc,
                      bulk_failed = failed acc,
                      bulk_total = length (elements coupons),
                      bulk_errors = (if length (errors acc) > 0 then Value (errors acc) else Absent) \<rparr>)),
                  w1, calls)))"

section \<open>Example providers and data\<close>

text \<open>
  A provider whose state counts the calls it has served. It lists the given coupons,
  creates every coupon but one named \<open>taken\<close>, and succeeds everywhere else.
\<close>

definition counting_provider :: "coupon list \<Rightarrow> nat provider" where
  "counting_provider cs =
     \<lparr> batch_send = (\<lambda>emails n. (Inr (), n + 1)),
       customers_create = (\<lambda>email auth n. (Inr ''cus_1'', n + 1)),
       customers_del = (\<lambda>c n. (Inr (), n + 1)),
       subscriptions_list = (\<lambda>c n. (Inr [], n + 1)),
       prices_retrieve = (\<lambda>p n. (Inr \<lparr> price_product = ''prod_1'' \<rparr>, n + 1)),
       products_retrieve = (\<lambda>p n. (Inr \<lparr> product_name = Some ''Pro'' \<rparr>, n + 1)),
       coupons_list = (\<lambda>n. (Inr cs, n + 1)),
       coupons_create = (\<lambda>p n. (if p_name p = Str ''taken'' then Inl (Error ''name taken'') else Inr (), n + 1)),
       sessions_create = (\<lambda>p n. (Inr (Some ''https://checkout.example/s1''), n + 1)) \<rparr>"

text \<open>A provider every call of which raises.\<close>

definition failing_provider :: "nat provider" where
  "failing_provider =
     \<lparr> batch_send = (\<lambda>emails n. (Inl (Error ''provider unavailable''), n + 1)),
       customers_create = (\<lambda>email auth n. (Inl (Error ''provider unavailable''), n + 1)),
       customers_del = (\<lambda>c n. (Inl (Error ''provider unavailable''), n + 1)),
       subscriptions_list = (\<lambda>c n. (Inl (Error ''provider unavailable''), n + 1)),
       prices_retrieve = (\<lambda>p n. (Inl (Error ''provider unavailable''), n + 1)),
       products_retrieve = (\<lambda>p n. (Inl (Error ''provider unavailable''), n + 1)),
       coupons_list = (\<lambda>n. (Inl (Error ''provider unavailable''), n + 1)),
       coupons_create = (\<lambda>p n. (Inl (Error ''provider unavailable''), n + 1)),
       sessions_create = (\<lambda>p n. (Inl (Error ''provider unavailable''), n + 1)) \<rparr>"

definition email_coupon :: coupon where
  "email_coupon =
     \<lparr> coupon_id = ''co_email'', percent_off = Some 50, max_redemptions = Some 1,
       times_redeemed = 0, metadata = [''allowed_email'' \<mapsto> ''a@x.com''] \<rparr>"

definition domain_coupon :: coupon where
  "domain_coupon =
     \<lparr> coupon_id = ''co_domain'', percent_off = Some 20, max_redemptions = Some 5,
       times_redeemed = 2, metadata = [''allowed_domain'' \<mapsto> ''x.com''] \<rparr>"

definition other_coupon :: coupon where
  "other_coupon =
     \<lparr> coupon_id = ''co_other'', percent_off = Some 10, max_redemptions = None,
       times_redeemed = 7, metadata = [''allowed_domain'' \<mapsto> ''y.org''] \<rparr>"

definition demo_config :: config where
  "demo_config =
     \<lparr> senderEmail = ''noreply@x.com'', subscriptionPriceId = ''price_1'',
       frontendUrl = Some ''https://app.example'' \<rparr>"

text \<open>
  A coupon redeemed as often as it may be, one redeemed more often than that, and rows
  of a bulk import.
\<close>

definition exhausted_coupon :: coupon where
  "exhausted_coupon =
     \<lparr> coupon_id = ''co_used'', percent_off = Some 30, max_redemptions = Some 1,
       times_redeemed = 1, metadata = [''allowed_email'' \<mapsto> ''b@x.com''] \<rparr>"

definition overused_coupon :: coupon where
  "overused_coupon =
     \<lparr> coupon_id = ''co_over'', percent_off = Some 40, max_redemptions = Some 1,
       times_redeemed = 2, metadata = [''allowed_domain'' \<mapsto> ''z.net''] \<rparr>"

definition domain_row :: jsval where
  "domain_row =
     Obj [(''type'', Str ''domain''), (''name'', Str ''Team''), (''domain'', Str ''x.com''),
          (''discountPercent'', Num 20), (''maxSeats'', Num 5)]"

definition email_row :: jsval where
  "email_row =
     Obj [(''type'', Str ''email''), (''name'', Str ''Guest''), (''email'', Str ''a@x.com''),
          (''discountPercent'', Num 50)]"

definition bogus_row :: jsval where
  "bogus_row = Obj [(''type'', Str ''bogus'')]"

definition taken_row :: jsval where
  "taken_row =
     Obj [(''type'', Str ''email''), (''name'', Str ''taken''), (''email'', Str ''c@x.com''),
          (''discountPercent'', Num 10)]"

section \<open>Notions of the specification\<close>

text \<open>
  \<open>first_match_at P xs i\<close>: position \<open>i\<close> holds the first element of \<open>xs\<close>, in the
  order of the list, that satisfies \<open>P\<close>.
\<close>

definition first_match_at :: "('a \<Rightarrow> bool) \<Rightarrow> 'a list \<Rightarrow> nat \<Rightarrow> bool" where
  "first_match_at P xs i \<longleftrightarrow> i < length xs \<and> P (xs ! i) \<and> (\<forall>j<i. \<not> P (xs ! j))"

text \<open>The two tests of the resolver on a coupon's metadata.\<close>

definition email_match :: "string \<Rightarrow> coupon \<Rightarrow> bool" where
  "email_match email c \<longleftrightarrow> metadata c ''allowed_email'' = Some email"

definition domain_match :: "string option \<Rightarrow> coupon \<Rightarrow> bool" where
  "domain_match domain c \<longleftrightarrow> metadata c ''allowed_domain'' = domain"

text \<open>The substring of the email after its first \<open>@\<close>.\<close>

definition after_first_at :: "string \<Rightarrow> string" where
  "after_first_at email = tl (dropWhile (\<lambda>c. c \<noteq> CHR ''@'') email)"

text \<open>A value that is a list with at least one element.\<close>

fun nonempty_list :: "jsval \<Rightarrow> bool" where
  "nonempty_list (Arr xs) = (xs \<noteq> [])"
| "nonempty_list v = False"

text \<open>
  What the loop of the bulk import maintains when it enters index \<open>i\<close>: every earlier
  row was counted once, every failure has its entry, the entries' row numbers increase
  and lie between 1 and \<open>i\<close>.
\<close>

definition bulk_inv :: "nat \<Rightarrow> bulk_acc \<Rightarrow> bool" where
  "bulk_inv i acc \<longleftrightarrow>
     created acc + failed acc = i
     \<and> length (errors acc) = failed acc
     \<and> sorted_wrt (<) (map entry_row (errors acc))
     \<and> (\<forall>e\<in>set (errors acc). 1 \<le> entry_row e \<and> entry_row e \<le> i)"

text \<open>
  The summary's \<open>errors\<close> agree with its counts: left out when nothing failed, otherwise
  a non-empty list with one entry per failure, row numbers strictly increasing and
  between 1 and the total.
\<close>

definition errors_consistent :: "bulk_result \<Rightarrow> bool" where
  "errors_consistent b \<longleftrightarrow>
     (case bulk_errors b of
        Absent \<Rightarrow> bulk_failed b = 0
      | IsNull \<Rightarrow> False
      | Value es \<Rightarrow>
          es \<noteq> [] \<and> length es = bulk_failed b
          \<and> sorted_wrt (<) (map entry_row es)
          \<and> (\<forall>e\<in>set es. 1 \<le> entry_row e \<and> entry_row e \<le> bulk_total b))"

text \<open>
  The import as the specification describes it: the rows taken one after the other, each
  either created or recorded as a failure with its row number (counted from 1), its
  name or the label \<open>Row N\<close>, and the message of its exception; no row ends the import.
  \<open>n\<close> is the number of rows already taken.
\<close>

fun import_rows ::
  "'w provider \<Rightarrow> nat \<Rightarrow> jsval list \<Rightarrow> bulk_acc \<Rightarrow> 'w \<Rightarrow> call list \<Rightarrow> bulk_acc \<times> 'w \<times> call list"
where
  "import_rows prov n [] acc w calls = (acc, w, calls)"
| "import_rows prov n (row # rows) acc w calls =
     (case try_row prov row w of
        (Inr u, w1, cs) \<Rightarrow>
          import_rows prov (n + 1) rows (acc \<lparr> created := created acc + 1 \<rparr>) w1 (calls @ cs)
      | (Inl error, w1, cs) \<Rightarrow>
          import_rows prov (n + 1) rows
            (acc \<lparr> failed := failed acc + 1,
                   errors := errors acc @
                     [\<lparr> entry_row = n + 1,
                        entry_coupon =
                          (if truthy (field_of row ''name'') then field_of row ''name''
                           else Str (''Row '' @ decimal (n + 1))),
                        entry_error = message error \<rparr>] \<rparr>)
            w1 (calls @ cs))"

section \<open>The discount resolver returns the first match, email before domain\<close>

lemma find_filter_same: "List.find P (filter P xs) = List.find P xs"
  by (induction xs) auto

lemma getDiscount_find:
  "getDiscount coupons email domain =
     (case List.find (email_match email) coupons of
        Some c \<Rightarrow> Some c
      | None \<Rightarrow> List.find (domain_match domain) coupons)"
  unfolding getDiscount_def email_match_def domain_match_def
  by (simp add: find_filter_same split: option.splits)

lemma find_first_match:
  "List.find P xs = Some x \<longleftrightarrow> (\<exists>i. first_match_at P xs i \<and> x = xs ! i)"
  unfolding first_match_at_def find_Some_iff by blast

lemma find_no_match: "List.find P xs = None \<longleftrightarrow> (\<forall>x\<in>set xs. \<not> P x)"
  by (auto simp: find_None_iff)

lemma first_match_at_unique:
  "first_match_at P xs i \<Longrightarrow> first_match_at P xs j \<Longrightarrow> i = j"
  unfolding first_match_at_def by (meson nat_neq_iff)

text \<open>
  Claim C1. For every coupon list, email and domain: if some coupon's \<open>allowed_email\<close>
  equals the email, \<open>getDiscount\<close> returns the first such coupon of the list; otherwise,
  if some coupon's \<open>allowed_domain\<close> equals the domain, it returns the first of those;
  otherwise it returns nothing. The domain may be undefined (an email without \<open>@\<close>);
  equality is then with a coupon that has no \<open>allowed_domain\<close>.
\<close>

theorem getDiscount_priority:
  "((\<exists>c\<in>set coupons. email_match email c) \<longrightarrow>
      (\<exists>i. first_match_at (email_match email) coupons i \<and>
           getDiscount coupons email domain = Some (coupons ! i)))
   \<and> ((\<forall>c\<in>set coupons. \<not> email_match email c) \<and> (\<exists>c\<in>set coupons. domain_match domain c) \<longrightarrow>
      (\<exists>i. first_match_at (domain_match domain) coupons i \<and>
           getDiscount coupons email domain = Some (coupons ! i)))
   \<and> ((\<forall>c\<in>set coupons. \<not> email_match email c) \<and> (\<forall>c\<in>set coupons. \<not> domain_match domain c) \<longrightarrow>
      getDiscount coupons email domain = None)"
proof (intro conjI impI)
  assume "\<exists>c\<in>set coupons. email_match email c"
  then have "List.find (email_match email) coupons \<noteq> None"
    by (simp add: find_no_match)
  then obtain x where x: "List.find (email_match email) coupons = Some x" by blast
  then obtain i where "first_match_at (email_match email) coupons i" "x = coupons ! i"
    using find_first_match by metis
  with x show "\<exists>i. first_match_at (email_match email) coupons i \<and>
           getDiscount coupons email domain = Some (coupons ! i)"
    by (auto simp: getDiscount_find)
next
  assume a: "(\<forall>c\<in>set coupons. \<not> email_match email c) \<and> (\<exists>c\<in>set coupons. domain_match domain c)"
  then have none: "List.find (email_match email) coupons = None"
    by (simp add: find_no_match)
  from a have "List.find (domain_match domain) coupons \<noteq> None"
    by (simp add: find_no_match)
  then obtain x where x: "List.find (domain_match domain) coupons = Some x" by blast
  then obtain i where "first_match_at (domain_match domain) coupons i" "x = coupons ! i"
    using find_first_match by metis
  with x none show "\<exists>i. first_match_at (domain_match domain) coupons i \<and>
           getDiscount coupons email domain = Some (coupons ! i)"
    by (auto simp: getDiscount_find)
next
  assume "(\<forall>c\<in>set coupons. \<not> email_match email c) \<and> (\<forall>c\<in>set coupons. \<not> domain_match domain c)"
  then show "getDiscount coupons email domain = None"
    by (simp add: getDiscount_find find_no_match[THEN iffD2])
qed

text \<open>
  The three cases at concrete lists: an email coupon listed after a domain coupon of the
  same domain is still the one returned; with no email coupon the domain coupon is
  returned; with neither, nothing.
\<close>

theorem getDiscount_priority_witness:
  "getDiscount [domain_coupon, email_coupon, other_coupon] ''a@x.com'' (Some ''x.com'') = Some email_coupon
   \<and> getDiscount [other_coupon, domain_coupon] ''b@x.com'' (Some ''x.com'') = Some domain_coupon
   \<and> getDiscount [other_coupon] ''b@x.com'' (Some ''x.com'') = None"
proof (intro conjI)
  let ?cs = "[domain_coupon, email_coupon, other_coupon]"
  have ex: "\<exists>c\<in>set ?cs. email_match ''a@x.com'' c"
    by (simp add: email_match_def email_coupon_def)
  have at1: "first_match_at (email_match ''a@x.com'') ?cs 1"
    by (simp add: first_match_at_def email_match_def email_coupon_def domain_coupon_def)
  from getDiscount_priority [of ?cs "''a@x.com''" "Some ''x.com''"] ex
  obtain i where i: "first_match_at (email_match ''a@x.com'') ?cs i"
      "getDiscount ?cs ''a@x.com'' (Some ''x.com'') = Some (?cs ! i)"
    by blast
  from i(1) at1 have "i = 1" by (rule first_match_at_unique)
  with i(2) show "getDiscount ?cs ''a@x.com'' (Some ''x.com'') = Some email_coupon" by simp
next
  let ?cs = "[other_coupon, domain_coupon]"
  have no: "\<forall>c\<in>set ?cs. \<not> email_match ''b@x.com'' c"
    by (simp add: email_match_def other_coupon_def domain_coupon_def)
  have ex: "\<exists>c\<in>set ?cs. domain_match (Some ''x.com'') c"
    by (simp add: domain_match_def domain_coupon_def)
  have at1: "first_match_at (domain_match (Some ''x.com'')) ?cs 1"
    by (simp add: first_match_at_def domain_match_def other_coupon_def domain_coupon_def)
  from getDiscount_priority [of ?cs "''b@x.com''" "Some ''x.com''"] no ex
  obtain i where i: "first_match_at (domain_match (Some ''x.com'')) ?cs i"
      "getDiscount ?cs ''b@x.com'' (Some ''x.com'') = Some (?cs ! i)"
    by blast
  from i(1) at1 have "i = 1" by (rule first_match_at_unique)
  with i(2) show "getDiscount ?cs ''b@x.com'' (Some ''x.com'') = Some domain_coupon" by simp
next
  let ?cs = "[other_coupon]"
  have no: "\<forall>c\<in>set ?cs. \<not> email_match ''b@x.com'' c"
    by (simp add: email_match_def other_coupon_def)
  have nod: "\<forall>c\<in>set ?cs. \<not> domain_match (Some ''x.com'') c"
    by (simp add: domain_match_def other_coupon_def)
  from getDiscount_priority [of ?cs "''b@x.com''" "Some ''x.com''"] no nod
  show "getDiscount ?cs ''b@x.com'' (Some ''x.com'') = None" by blast
qed

section \<open>The domain derived from the email\<close>

lemma split_on_unfold:
  "split_on sep s =
     takeWhile (\<lambda>c. c \<noteq> sep) s #
       (case dropWhile (\<lambda>c. c \<noteq> sep) s of [] \<Rightarrow> [] | _ # rest \<Rightarrow> split_on sep rest)"
  by (induction s) (auto split: list.splits)

lemma dropWhile_at:
  "sep \<in> set s \<Longrightarrow> dropWhile (\<lambda>c. c \<noteq> sep) s = sep # tl (dropWhile (\<lambda>c. c \<noteq> sep) s)"
  by (induction s) auto

lemma emailDomain_segment:
  assumes "CHR ''@'' \<in> set email"
  shows "emailDomain email = Some (takeWhile (\<lambda>c. c \<noteq> CHR ''@'') (after_first_at email))"
proof -
  let ?rest = "after_first_at email"
  have d: "dropWhile (\<lambda>c. c \<noteq> CHR ''@'') email = CHR ''@'' # ?rest"
    unfolding after_first_at_def using assms by (rule dropWhile_at)
  have "split_on (CHR ''@'') email =
          takeWhile (\<lambda>c. c \<noteq> CHR ''@'') email # split_on (CHR ''@'') ?rest"
    by (subst split_on_unfold) (simp add: d)
  also have "split_on (CHR ''@'') ?rest =
          takeWhile (\<lambda>c. c \<noteq> CHR ''@'') ?rest #
            (case dropWhile (\<lambda>c. c \<noteq> CHR ''@'') ?rest of [] \<Rightarrow> [] | _ # r \<Rightarrow> split_on (CHR ''@'') r)"
    by (rule split_on_unfold)
  finally show ?thesis by (simp add: emailDomain_def)
qed

text \<open>
  Claim C5, as amended. Both the preview and the checkout-session handler derive the
  email and its domain with \<open>split_email\<close>. For every email that contains an \<open>@\<close>
  the domain is the text after the first \<open>@\<close> up to the next \<open>@\<close> (or to the end
  when there is no other); so it is the whole substring after the first \<open>@\<close> exactly
  when that substring contains no further \<open>@\<close>.
\<close>

theorem split_email_domain:
  "(CHR ''@'' \<in> set email \<longrightarrow>
      split_email (Str email) =
        Inr (email, Some (takeWhile (\<lambda>c. c \<noteq> CHR ''@'') (after_first_at email))))
   \<and> (CHR ''@'' \<in> set email \<and> CHR ''@'' \<notin> set (after_first_at email) \<longrightarrow>
      split_email (Str email) = Inr (email, Some (after_first_at email)))"
proof (intro conjI impI)
  assume "CHR ''@'' \<in> set email"
  then show "split_email (Str email) =
        Inr (email, Some (takeWhile (\<lambda>c. c \<noteq> CHR ''@'') (after_first_at email)))"
    by (simp add: split_email_def emailDomain_segment)
next
  assume a: "CHR ''@'' \<in> set email \<and> CHR ''@'' \<notin> set (after_first_at email)"
  then have "takeWhile (\<lambda>c. c \<noteq> CHR ''@'') (after_first_at email) = after_first_at email"
    by (auto intro: takeWhile_eq_all_conv[THEN iffD2])
  with a show "split_email (Str email) = Inr (email, Some (after_first_at email))"
    by (simp add: split_email_def emailDomain_segment)
qed

text \<open>The theorem at an email with one \<open>@\<close> and at an email with two.\<close>

theorem split_email_domain_witness:
  "split_email (Str ''a@x.com'') = Inr (''a@x.com'', Some ''x.com'')
   \<and> split_email (Str ''a@b@c'') = Inr (''a@b@c'', Some ''b'')"
proof (intro conjI)
  have "CHR ''@'' \<in> set ''a@x.com'' \<and> CHR ''@'' \<notin> set (after_first_at ''a@x.com'')"
    by (simp add: after_first_at_def)
  with split_email_domain [of "''a@x.com''"]
  have "split_email (Str ''a@x.com'') = Inr (''a@x.com'', Some (after_first_at ''a@x.com''))"
    by blast
  then show "split_email (Str ''a@x.com'') = Inr (''a@x.com'', Some ''x.com'')"
    by (simp add: after_first_at_def)
next
  have "CHR ''@'' \<in> set ''a@b@c''" by simp
  with split_email_domain [of "''a@b@c''"]
  have "split_email (Str ''a@b@c'') =
        Inr (''a@b@c'', Some (takeWhile (\<lambda>c. c \<noteq> CHR ''@'') (after_first_at ''a@b@c'')))"
    by blast
  then show "split_email (Str ''a@b@c'') = Inr (''a@b@c'', Some ''b'')"
    by (simp add: after_first_at_def)
qed

text \<open>
  The claim as stated fails for an email with two \<open>@\<close>: the substring after the
  first \<open>@\<close> of \<open>a@b@c\<close> is \<open>b@c\<close>, the domain the handlers use is \<open>b\<close>.
\<close>

theorem domain_is_not_rest_after_first_at:
  "CHR ''@'' \<in> set ''a@b@c''
   \<and> after_first_at ''a@b@c'' = ''b@c''
   \<and> split_email (Str ''a@b@c'') = Inr (''a@b@c'', Some ''b'')
   \<and> split_email (Str ''a@b@c'') \<noteq> Inr (''a@b@c'', Some (after_first_at ''a@b@c''))"
  by (simp add: split_email_def emailDomain_def after_first_at_def)

section \<open>The discount preview\<close>

lemma discounts_run:
  assumes "destructure payload ''email'' = Inr (Str email)"
    and "coupons_list prov w = (Inr coupons, w1)"
  shows "discounts prov payload w =
     (Inr (Response 200 (DiscountBody
        (case getDiscount coupons email (emailDomain email) of
           None \<Rightarrow> None
         | Some c \<Rightarrow>
             if max_redemptions c = Some (times_redeemed c) then None
             else Some \<lparr> preview_discount = (case percent_off c of None \<Rightarrow> 0 | Some p \<Rightarrow> p) / 100,
                         preview_domain = (case metadata c ''allowed_domain'' of
                                             None \<Rightarrow> Absent | Some d \<Rightarrow> Value d) \<rparr>))),
      w1, [CouponsList])"
  using assms by (simp add: discounts_def split_email_def split: option.splits)

text \<open>
  Claim C4, as amended. For a request whose \<open>email\<close> is a string and a provider that
  lists its coupons, the preview answers 200 after the one listing call. The result is
  null when the resolver finds no coupon, and when the resolved coupon's
  \<open>max_redemptions\<close> equals its \<open>times_redeemed\<close>. Otherwise it holds the coupon's
  percent-off divided by 100 (0 for a null percent-off; between 0 and 1 when the
  percent-off is between 0 and 100) and the coupon's \<open>allowed_domain\<close>: that string
  when the coupon has one, and no \<open>domain\<close> property at all when it has none, as for a
  coupon matched by email.
\<close>

theorem discounts_preview:
  assumes "destructure payload ''email'' = Inr (Str email)"
    and "coupons_list prov w = (Inr coupons, w1)"
  shows "(getDiscount coupons email (emailDomain email) = None \<longrightarrow>
            discounts prov payload w = (Inr (Response 200 (DiscountBody None)), w1, [CouponsList]))
       \<and> (\<forall>c. getDiscount coupons email (emailDomain email) = Some c
               \<and> max_redemptions c = Some (times_redeemed c) \<longrightarrow>
            discounts prov payload w = (Inr (Response 200 (DiscountBody None)), w1, [CouponsList]))
       \<and> (\<forall>c. getDiscount coupons email (emailDomain email) = Some c
               \<and> max_redemptions c \<noteq> Some (times_redeemed c) \<longrightarrow>
            (\<exists>p. discounts prov payload w =
                   (Inr (Response 200 (DiscountBody (Some p))), w1, [CouponsList])
               \<and> preview_discount p = (case percent_off c of None \<Rightarrow> 0 | Some x \<Rightarrow> x) / 100
               \<and> ((case percent_off c of None \<Rightarrow> True | Some x \<Rightarrow> 0 \<le> x \<and> x \<le> 100) \<longrightarrow>
                    0 \<le> preview_discount p \<and> preview_discount p \<le> 1)
               \<and> (\<forall>d. metadata c ''allowed_domain'' = Some d \<longrightarrow> preview_domain p = Value d)
               \<and> (metadata c ''allowed_domain'' = None \<longrightarrow> preview_domain p = Absent)))"
  by (auto simp: discounts_run[OF assms] split: option.splits)

text \<open>The three cases at concrete coupon lists.\<close>

theorem discounts_preview_witness:
  "discounts (counting_provider [other_coupon, domain_coupon]) (Obj [(''email'', Str ''b@x.com'')]) 0 =
     (Inr (Response 200 (DiscountBody (Some \<lparr> preview_discount = 1 / 5, preview_domain = Value ''x.com'' \<rparr>))),
      1, [CouponsList])
   \<and> discounts (counting_provider [exhausted_coupon]) (Obj [(''email'', Str ''b@x.com'')]) 0 =
     (Inr (Response 200 (DiscountBody None)), 1, [CouponsList])
   \<and> discounts (counting_provider [other_coupon]) (Obj [(''email'', Str ''b@x.com'')]) 0 =
     (Inr (Response 200 (DiscountBody None)), 1, [CouponsList])"
proof (intro conjI)
  let ?payload = "Obj [(''email'', Str ''b@x.com'')]"
  have payload: "destructure ?payload ''email'' = Inr (Str ''b@x.com'')"
    by (simp add: destructure_def)
  have dom: "emailDomain ''b@x.com'' = Some ''x.com''"
    by (simp add: emailDomain_def)
  {
    let ?cs = "[other_coupon, domain_coupon]"
    have list: "coupons_list (counting_provider ?cs) 0 = (Inr ?cs, 1)"
      by (simp add: counting_provider_def)
    have found: "getDiscount ?cs ''b@x.com'' (emailDomain ''b@x.com'') = Some domain_coupon"
      by (simp add: dom getDiscount_def other_coupon_def domain_coupon_def)
    have live: "max_redemptions domain_coupon \<noteq> Some (times_redeemed domain_coupon)"
      by (simp add: domain_coupon_def)
    from discounts_preview [OF payload list] found live
    obtain p where p: "discounts (counting_provider ?cs) ?payload 0 =
          (Inr (Response 200 (DiscountBody (Some p))), 1, [CouponsList])"
        "preview_discount p = (case percent_off domain_coupon of None \<Rightarrow> 0 | Some x \<Rightarrow> x) / 100"
        "\<forall>d. metadata domain_coupon ''allowed_domain'' = Some d \<longrightarrow> preview_domain p = Value d"
      by blast
    from p(2) have "preview_discount p = 1 / 5" by (simp add: domain_coupon_def)
    moreover from p(3) have "preview_domain p = Value ''x.com''" by (simp add: domain_coupon_def)
    ultimately have "p = \<lparr> preview_discount = 1 / 5, preview_domain = Value ''x.com'' \<rparr>"
      by simp
    with p(1) show "discounts (counting_provider ?cs) ?payload 0 =
       (Inr (Response 200 (DiscountBody (Some \<lparr> preview_discount = 1 / 5, preview_domain = Value ''x.com'' \<rparr>))),
        1, [CouponsList])"
      by simp
  }
  {
    let ?cs = "[exhausted_coupon]"
    have list: "coupons_list (counting_provider ?cs) 0 = (Inr ?cs, 1)"
      by (simp add: counting_provider_def)
    have found: "getDiscount ?cs ''b@x.com'' (emailDomain ''b@x.com'') = Some exhausted_coupon"
      by (simp add: dom getDiscount_def exhausted_coupon_def)
    have used: "max_redemptions exhausted_coupon = Some (times_redeemed exhausted_coupon)"
      by (simp add: exhausted_coupon_def)
    from discounts_preview [OF payload list] found used
    show "discounts (counting_provider ?cs) ?payload 0 =
       (Inr (Response 200 (DiscountBody None)), 1, [CouponsList])"
      by blast
  }
  {
    let ?cs = "[other_coupon]"
    have list: "coupons_list (counting_provider ?cs) 0 = (Inr ?cs, 1)"
      by (simp add: counting_provider_def)
    have none: "getDiscount ?cs ''b@x.com'' (emailDomain ''b@x.com'') = None"
      by (simp add: dom getDiscount_def other_coupon_def)
    from discounts_preview [OF payload list] none
    show "discounts (counting_provider ?cs) ?payload 0 =
       (Inr (Response 200 (DiscountBody None)), 1, [CouponsList])"
      by blast
  }
qed

text \<open>
  The claim as stated promises a domain string with every non-null result. For a coupon
  matched by email the result carries the fraction and no domain.
\<close>

theorem preview_of_email_coupon_has_no_domain:
  "discounts (counting_provider [email_coupon]) (Obj [(''email'', Str ''a@x.com'')]) 0 =
     (Inr (Response 200 (DiscountBody (Some \<lparr> preview_discount = 1 / 2, preview_domain = Absent \<rparr>))),
      1, [CouponsList])"
  by (simp add: discounts_def destructure_def split_email_def emailDomain_def counting_provider_def
      getDiscount_def email_coupon_def)

text \<open>
  Claim C10. The preview treats the resolved coupon as exhausted exactly when its
  \<open>max_redemptions\<close> equals its \<open>times_redeemed\<close>. So a resolved coupon without a
  maximum is returned as a discount, and so is one redeemed more often than its maximum.
\<close>

theorem exhaustion_is_strict_equality:
  assumes "destructure payload ''email'' = Inr (Str email)"
    and "coupons_list prov w = (Inr coupons, w1)"
    and "getDiscount coupons email (emailDomain email) = Some c"
  shows "(discounts prov payload w = (Inr (Response 200 (DiscountBody None)), w1, [CouponsList])
            \<longleftrightarrow> max_redemptions c = Some (times_redeemed c))
       \<and> (max_redemptions c = None \<longrightarrow>
            (\<exists>p. discounts prov payload w =
                   (Inr (Response 200 (DiscountBody (Some p))), w1, [CouponsList])))
       \<and> (\<forall>m. max_redemptions c = Some m \<and> m < times_redeemed c \<longrightarrow>
            (\<exists>p. discounts prov payload w =
                   (Inr (Response 200 (DiscountBody (Some p))), w1, [CouponsList])))"
  using assms(3) by (auto simp: discounts_run[OF assms(1,2)])

text \<open>A coupon without maximum, redeemed 7 times, and one redeemed twice with maximum 1.\<close>

theorem exhaustion_is_strict_equality_witness:
  "(\<exists>p. discounts (counting_provider [other_coupon]) (Obj [(''email'', Str ''c@y.org'')]) 0 =
        (Inr (Response 200 (DiscountBody (Some p))), 1, [CouponsList]))
   \<and> (\<exists>p. discounts (counting_provider [overused_coupon]) (Obj [(''email'', Str ''d@z.net'')]) 0 =
        (Inr (Response 200 (DiscountBody (Some p))), 1, [CouponsList]))"
proof (intro conjI)
  let ?payload = "Obj [(''email'', Str ''c@y.org'')]"
  let ?cs = "[other_coupon]"
  have payload: "destructure ?payload ''email'' = Inr (Str ''c@y.org'')"
    by (simp add: destructure_def)
  have list: "coupons_list (counting_provider ?cs) 0 = (Inr ?cs, 1)"
    by (simp add: counting_provider_def)
  have found: "getDiscount ?cs ''c@y.org'' (emailDomain ''c@y.org'') = Some other_coupon"
    by (simp add: emailDomain_def getDiscount_def other_coupon_def)
  have nomax: "max_redemptions other_coupon = None"
    by (simp add: other_coupon_def)
  from exhaustion_is_strict_equality [OF payload list found] nomax
  show "\<exists>p. discounts (counting_provider ?cs) ?payload 0 =
        (Inr (Response 200 (DiscountBody (Some p))), 1, [CouponsList])"
    by blast
next
  let ?payload = "Obj [(''email'', Str ''d@z.net'')]"
  let ?cs = "[overused_coupon]"
  have payload: "destructure ?payload ''email'' = Inr (Str ''d@z.net'')"
    by (simp add: destructure_def)
  have list: "coupons_list (counting_provider ?cs) 0 = (Inr ?cs, 1)"
    by (simp add: counting_provider_def)
  have found: "getDiscount ?cs ''d@z.net'' (emailDomain ''d@z.net'') = Some overused_coupon"
    by (simp add: emailDomain_def getDiscount_def overused_coupon_def)
  have over: "max_redemptions overused_coupon = Some 1 \<and> 1 < times_redeemed overused_coupon"
    by (simp add: overused_coupon_def)
  from exhaustion_is_strict_equality [OF payload list found] over
  show "\<exists>p. discounts (counting_provider ?cs) ?payload 0 =
        (Inr (Response 200 (DiscountBody (Some p))), 1, [CouponsList])"
    by blast
qed

section \<open>Checkout sessions\<close>

lemma create_checkout_session_run:
  assumes "destructure payload ''email'' = Inr (Str email)"
    and "coupons_list prov w = (Inr coupons, w1)"
  shows "\<exists>params.
     create_checkout_session cfg prov payload w =
       (case sessions_create prov params w1 of
          (Inr url, w2) \<Rightarrow> (Inr (Response 200 (SessionUrlBody url)), w2, [CouponsList, SessionsCreate params])
        | (Inl e, w2) \<Rightarrow> (Inr (Response 500 (SessionUrlBody None)), w2, [CouponsList, SessionsCreate params]))
     \<and> cp_discounts params =
         (case getDiscount coupons email (emailDomain email) of
            None \<Rightarrow> None | Some c \<Rightarrow> Some [coupon_id c])
     \<and> cp_line_items params = [(subscriptionPriceId cfg, 1)]
     \<and> cp_mode params = ''subscription''
     \<and> cp_customer params = field_of payload ''customerId''"
proof -
  define base where "base =
     \<lparr> cp_payment_method_types = [''card''],
       cp_mode = ''subscription'',
       cp_line_items = [(subscriptionPriceId cfg, 1)],
       cp_customer = field_of payload ''customerId'',
       cp_success_url = frontendUrl cfg,
       cp_cancel_url = (case frontendUrl cfg of None \<Rightarrow> ''undefined'' | Some u \<Rightarrow> u) @ ''/pricing?error=true'',
       cp_discounts = None \<rparr>"
  define params where "params =
     (case getDiscount coupons email (emailDomain email) of
        None \<Rightarrow> base
      | Some c \<Rightarrow> base \<lparr> cp_discounts := Some [coupon_id c] \<rparr>)"
  have "create_checkout_session cfg prov payload w =
       (case sessions_create prov params w1 of
          (Inr url, w2) \<Rightarrow> (Inr (Response 200 (SessionUrlBody url)), w2, [CouponsList, SessionsCreate params])
        | (Inl e, w2) \<Rightarrow> (Inr (Response 500 (SessionUrlBody None)), w2, [CouponsList, SessionsCreate params]))"
    using assms
    by (cases "getDiscount coupons email (emailDomain email)")
       (simp_all add: create_checkout_session_def split_email_def Let_def params_def base_def
          split: prod.splits sum.splits)
  moreover have "cp_discounts params =
         (case getDiscount coupons email (emailDomain email) of
            None \<Rightarrow> None | Some c \<Rightarrow> Some [coupon_id c])"
    by (simp add: params_def base_def split: option.splits)
  moreover have "cp_line_items params = [(subscriptionPriceId cfg, 1)]"
    by (simp add: params_def base_def split: option.splits)
  moreover have "cp_mode params = ''subscription''"
    by (simp add: params_def base_def split: option.splits)
  moreover have "cp_customer params = field_of payload ''customerId''"
    by (simp add: params_def base_def split: option.splits)
  ultimately show ?thesis by blast
qed

text \<open>
  Claim C6. For a request whose \<open>email\<close> is a string and a provider that lists its
  coupons, the handler asks the provider for exactly one session, and the parameters of
  that session carry a \<open>discounts\<close> list if and only if the resolver returned a coupon;
  the list then holds that coupon's id. Nothing compares \<open>max_redemptions\<close> with
  \<open>times_redeemed\<close> on this path: an exhausted coupon is attached like any other.
\<close>

theorem checkout_attaches_resolved_coupon:
  assumes "destructure payload ''email'' = Inr (Str email)"
    and "coupons_list prov w = (Inr coupons, w1)"
  shows "\<exists>result w2 params.
     create_checkout_session cfg prov payload w = (Inr result, w2, [CouponsList, SessionsCreate params])
     \<and> (cp_discounts params \<noteq> None \<longleftrightarrow> getDiscount coupons email (emailDomain email) \<noteq> None)
     \<and> (\<forall>c. getDiscount coupons email (emailDomain email) = Some c \<longrightarrow>
            cp_discounts params = Some [coupon_id c])
     \<and> (\<forall>c. getDiscount coupons email (emailDomain email) = Some c
             \<and> max_redemptions c = Some (times_redeemed c) \<longrightarrow>
            cp_discounts params = Some [coupon_id c])"
proof -
  from create_checkout_session_run [OF assms, of cfg]
  obtain params where p:
    "create_checkout_session cfg prov payload w =
       (case sessions_create prov params w1 of
          (Inr url, w2) \<Rightarrow> (Inr (Response 200 (SessionUrlBody url)), w2, [CouponsList, SessionsCreate params])
        | (Inl e, w2) \<Rightarrow> (Inr (Response 500 (SessionUrlBody None)), w2, [CouponsList, SessionsCreate params]))"
    "cp_discounts params =
         (case getDiscount coupons email (emailDomain email) of
            None \<Rightarrow> None | Some c \<Rightarrow> Some [coupon_id c])"
    by blast
  obtain r w2 where s: "sessions_create prov params w1 = (r, w2)"
    by (cases "sessions_create prov params w1")
  from p(1) s have "\<exists>result. create_checkout_session cfg prov payload w =
      (Inr result, w2, [CouponsList, SessionsCreate params])"
    by (cases r) simp_all
  moreover from p(2)
  have "(cp_discounts params \<noteq> None \<longleftrightarrow> getDiscount coupons email (emailDomain email) \<noteq> None)
     \<and> (\<forall>c. getDiscount coupons email (emailDomain email) = Some c \<longrightarrow>
            cp_discounts params = Some [coupon_id c])
     \<and> (\<forall>c. getDiscount coupons email (emailDomain email) = Some c
             \<and> max_redemptions c = Some (times_redeemed c) \<longrightarrow>
            cp_discounts params = Some [coupon_id c])"
    by (simp split: option.splits)
  ultimately show ?thesis by blast
qed

text \<open>An exhausted coupon is attached; with no matching coupon nothing is.\<close>

theorem checkout_attaches_resolved_coupon_witness:
  "(\<exists>result w2 params.
      create_checkout_session demo_config (counting_provider [exhausted_coupon])
        (Obj [(''email'', Str ''b@x.com''), (''customerId'', Str ''cus_1'')]) 0 =
          (Inr result, w2, [CouponsList, SessionsCreate params])
      \<and> cp_discounts params = Some [''co_used''])
   \<and> (\<exists>result w2 params.
      create_checkout_session demo_config (counting_provider [other_coupon])
        (Obj [(''email'', Str ''b@x.com''), (''customerId'', Str ''cus_1'')]) 0 =
          (Inr result, w2, [CouponsList, SessionsCreate params])
      \<and> cp_discounts params = None)"
proof (intro conjI)
  let ?payload = "Obj [(''email'', Str ''b@x.com''), (''customerId'', Str ''cus_1'')]"
  have payload: "destructure ?payload ''email'' = Inr (Str ''b@x.com'')"
    by (simp add: destructure_def)
  {
    let ?cs = "[exhausted_coupon]"
    have list: "coupons_list (counting_provider ?cs) 0 = (Inr ?cs, 1)"
      by (simp add: counting_provider_def)
    have found: "getDiscount ?cs ''b@x.com'' (emailDomain ''b@x.com'') = Some exhausted_coupon"
      by (simp add: emailDomain_def getDiscount_def exhausted_coupon_def)
    have cid: "coupon_id exhausted_coupon = ''co_used''"
      by (simp add: exhausted_coupon_def)
    from checkout_attaches_resolved_coupon [OF payload list, of demo_config] found cid
    show "\<exists>result w2 params.
      create_checkout_session demo_config (counting_provider ?cs) ?payload 0 =
          (Inr result, w2, [CouponsList, SessionsCreate params])
      \<and> cp_discounts params = Some [''co_used'']"
      by metis
  }
  {
    let ?cs = "[other_coupon]"
    have list: "coupons_list (counting_provider ?cs) 0 = (Inr ?cs, 1)"
      by (simp add: counting_provider_def)
    have none: "getDiscount ?cs ''b@x.com'' (emailDomain ''b@x.com'') = None"
      by (simp add: emailDomain_def getDiscount_def other_coupon_def)
    from checkout_attaches_resolved_coupon [OF payload list, of demo_config] none
    show "\<exists>result w2 params.
      create_checkout_session demo_config (counting_provider ?cs) ?payload 0 =
          (Inr result, w2, [CouponsList, SessionsCreate params])
      \<and> cp_discounts params = None"
      by metis
  }
qed

section \<open>Subscription status without a subscription\<close>

text \<open>
  Claim C8. When the provider lists no subscription for the customer, the handler
  answers 200 with \<open>hasSubscription\<close> false, with \<open>status\<close>, \<open>currentPeriodEnd\<close> and
  \<open>planName\<close> null and without \<open>subscriptionId\<close>, and the listing is the only call
  it makes: no price and no product is retrieved.
\<close>

theorem no_subscription_status:
  assumes "subscriptions_list prov customerId w = (Inr [], w1)"
  shows "subscription_status prov customerId w =
     (Inr (Response 200 (SubscriptionBody
        \<lparr> hasSubscription = False, info_status = IsNull, currentPeriodEnd = IsNull,
          planName = IsNull, subscriptionId = Absent \<rparr>)),
      w1, [SubscriptionsList customerId])"
  using assms by (simp add: subscription_status_def)

text \<open>The theorem at a provider that lists no subscription.\<close>

theorem no_subscription_status_witness:
  "subscription_status (counting_provider []) ''cus_1'' 0 =
     (Inr (Response 200 (SubscriptionBody
        \<lparr> hasSubscription = False, info_status = IsNull, currentPeriodEnd = IsNull,
          planName = IsNull, subscriptionId = Absent \<rparr>)),
      1, [SubscriptionsList ''cus_1''])"
proof -
  have "subscriptions_list (counting_provider []) ''cus_1'' 0 = (Inr [], 1)"
    by (simp add: counting_provider_def)
  then show ?thesis by (rule no_subscription_status)
qed

section \<open>Rejection of a missing or empty list\<close>

lemma get_prop_object:
  "payload \<noteq> Null \<Longrightarrow> payload \<noteq> Undefined \<Longrightarrow> get_prop payload k = Inr (field_of payload k)"
  by (simp add: get_prop_def)

lemma destructure_object:
  "payload \<noteq> Null \<Longrightarrow> payload \<noteq> Undefined \<Longrightarrow> destructure payload k = Inr (field_of payload k)"
  by (simp add: destructure_def)

lemma nonempty_list_iff: "nonempty_list v \<longleftrightarrow> isArray v \<and> \<not> length (elements v) < 1"
  by (cases v) auto

text \<open>
  Claim C7. For a request with a JSON body (neither null nor undefined): when
  \<open>emailObjects\<close> is missing, is not a list or is an empty list, the invitation handler
  answers 400 with its fixed message; when \<open>coupons\<close> is, the bulk import answers 400
  with its fixed message. In both cases no provider call is made and the provider's
  state is unchanged.
\<close>

theorem empty_list_rejected:
  assumes "payload \<noteq> Null" and "payload \<noteq> Undefined"
  shows "(\<not> nonempty_list (field_of payload ''emailObjects'') \<longrightarrow>
            send_email cfg prov payload w =
              (Inr (Response 400 (ErrorBody ''Please provide list of emails to send email to'')), w, []))
       \<and> (\<not> nonempty_list (field_of payload ''coupons'') \<longrightarrow>
            coupons_bulk prov payload w =
              (Inr (Response 400 (ErrorBody ''Please provide an array of coupons'')), w, []))"
  using assms
  by (auto simp: send_email_def coupons_bulk_def get_prop_object destructure_object nonempty_list_iff)

text \<open>
  A missing field, a field that is not a list and an empty list, for both handlers, with
  a provider that would raise on any call.
\<close>

theorem empty_list_rejected_witness:
  "send_email demo_config failing_provider (Obj []) 0 =
     (Inr (Response 400 (ErrorBody ''Please provide list of emails to send email to'')), 0, [])
   \<and> send_email demo_config failing_provider (Obj [(''emailObjects'', Str ''a@x.com'')]) 0 =
     (Inr (Response 400 (ErrorBody ''Please provide list of emails to send email to'')), 0, [])
   \<and> send_email demo_config failing_provider (Obj [(''emailObjects'', Arr [])]) 0 =
     (Inr (Response 400 (ErrorBody ''Please provide list of emails to send email to'')), 0, [])
   \<and> coupons_bulk failing_provider (Obj []) 0 =
     (Inr (Response 400 (ErrorBody ''Please provide an array of coupons'')), 0, [])
   \<and> coupons_bulk failing_provider (Obj [(''coupons'', Obj [])]) 0 =
     (Inr (Response 400 (ErrorBody ''Please provide an array of coupons'')), 0, [])
   \<and> coupons_bulk failing_provider (Obj [(''coupons'', Arr [])]) 0 =
     (Inr (Response 400 (ErrorBody ''Please provide an array of coupons'')), 0, [])"
proof -
  have a: "\<not> nonempty_list (field_of (Obj []) ''emailObjects'')" by simp
  have b: "\<not> nonempty_list (field_of (Obj [(''emailObjects'', Str ''a@x.com'')]) ''emailObjects'')" by simp
  have c: "\<not> nonempty_list (field_of (Obj [(''emailObjects'', Arr [])]) ''emailObjects'')" by simp
  have d: "\<not> nonempty_list (field_of (Obj []) ''coupons'')" by simp
  have e: "\<not> nonempty_list (field_of (Obj [(''coupons'', Obj [])]) ''coupons'')" by simp
  have f: "\<not> nonempty_list (field_of (Obj [(''coupons'', Arr [])]) ''coupons'')" by simp
  note r = empty_list_rejected [where cfg = demo_config and prov = failing_provider and w = 0]
  from r [of "Obj []"] a d
  have 1: "send_email demo_config failing_provider (Obj []) 0 =
     (Inr (Response 400 (ErrorBody ''Please provide list of emails to send email to'')), 0, [])"
    and 4: "coupons_bulk failing_provider (Obj []) 0 =
     (Inr (Response 400 (ErrorBody ''Please provide an array of coupons'')), 0, [])"
    by simp_all
  from r [of "Obj [(''emailObjects'', Str ''a@x.com'')]"] b
  have 2: "send_email demo_config failing_provider (Obj [(''emailObjects'', Str ''a@x.com'')]) 0 =
     (Inr (Response 400 (ErrorBody ''Please provide list of emails to send email to'')), 0, [])"
    by simp
  from r [of "Obj [(''emailObjects'', Arr [])]"] c
  have 3: "send_email demo_config failing_provider (Obj [(''emailObjects'', Arr [])]) 0 =
     (Inr (Response 400 (ErrorBody ''Please provide list of emails to send email to'')), 0, [])"
    by simp
  from r [of "Obj [(''coupons'', Obj [])]"] e
  have 5: "coupons_bulk failing_provider (Obj [(''coupons'', Obj [])]) 0 =
     (Inr (Response 400 (ErrorBody ''Please provide an array of coupons'')), 0, [])"
    by simp
  from r [of "Obj [(''coupons'', Arr [])]"] f
  have 6: "coupons_bulk failing_provider (Obj [(''coupons'', Arr [])]) 0 =
     (Inr (Response 400 (ErrorBody ''Please provide an array of coupons'')), 0, [])"
    by simp
  from 1 2 3 4 5 6 show ?thesis by blast
qed

section \<open>Provider exceptions and the handler boundary\<close>

text \<open>
  Four handlers call a provider outside any \<open>try\<close>: the invitation handler, customer
  creation, the preview, and the coupon listing of the checkout-session handler. An
  exception of that call leaves the handler. Customer deletion and the subscription
  status catch the provider's exception and answer 500.
\<close>

lemma create_customer_raises:
  assumes "payload \<noteq> Null" and "payload \<noteq> Undefined"
    and "customers_create prov (field_of payload ''email'') (field_of payload ''auth_id'') w = (Inl e, w1)"
  shows "fst (create_customer prov payload w) = Inl e"
  using assms by (simp add: create_customer_def get_prop_object)

lemma discounts_raises:
  assumes "destructure payload ''email'' = Inr (Str email)"
    and "coupons_list prov w = (Inl e, w1)"
  shows "fst (discounts prov payload w) = Inl e"
  using assms by (simp add: discounts_def split_email_def)

lemma create_checkout_session_raises:
  assumes "destructure payload ''email'' = Inr (Str email)"
    and "coupons_list prov w = (Inl e, w1)"
  shows "fst (create_checkout_session cfg prov payload w) = Inl e"
  using assms by (simp add: create_checkout_session_def split_email_def)

lemma send_email_raises:
  assumes "get_prop payload ''emailObjects'' = Inr (Arr objs)" and "objs \<noteq> []"
    and "map_raising (build_email cfg) objs = Inr emails"
    and "batch_send prov emails w = (Inl e, w1)"
  shows "fst (send_email cfg prov payload w) = Inl e"
  using assms by (simp add: send_email_def)

lemma delete_stripe_customer_catches:
  assumes "payload \<noteq> Null" and "payload \<noteq> Undefined"
    and "customers_del prov (field_of payload ''customerId'') w = (Inl e, w1)"
  shows "fst (delete_stripe_customer prov payload w) =
           Inr (Response 500 (ErrorBody ''Failed to delete stripe customer''))"
  using assms by (simp add: delete_stripe_customer_def destructure_object)

lemma subscription_status_never_raises:
  "\<exists>r. fst (subscription_status prov customerId w) = Inr r"
  by (simp add: subscription_status_def Let_def split: prod.splits sum.splits list.splits)

text \<open>
  Claim C3, evaluated. With a provider whose calls raise, customer creation, the
  invitation handler, the preview and the checkout-session handler end with the
  provider's exception uncaught instead of a 500 response; customer deletion, on the
  same provider, catches it and answers 500.
\<close>

theorem provider_exception_escapes:
  "create_customer failing_provider (Obj [(''email'', Str ''a@x.com''), (''auth_id'', Str ''u1'')]) 0 =
     (Inl (Error ''provider unavailable''), 1, [CustomersCreate (Str ''a@x.com'') (Str ''u1'')])
   \<and> fst (send_email demo_config failing_provider
            (Obj [(''emailObjects'', Arr [Obj [(''email'', Str ''b@y.org'')]])]) 0) =
       Inl (Error ''provider unavailable'')
   \<and> discounts failing_provider (Obj [(''email'', Str ''a@x.com'')]) 0 =
     (Inl (Error ''provider unavailable''), 1, [CouponsList])
   \<and> create_checkout_session demo_config failing_provider
        (Obj [(''email'', Str ''a@x.com''), (''customerId'', Str ''cus_1'')]) 0 =
     (Inl (Error ''provider unavailable''), 1, [CouponsList])
   \<and> delete_stripe_customer failing_provider (Obj [(''customerId'', Str ''cus_1'')]) 0 =
     (Inr (Response 500 (ErrorBody ''Failed to delete stripe customer'')), 1, [CustomersDel (Str ''cus_1'')])"
  by (simp add: create_customer_def send_email_def discounts_def create_checkout_session_def
      delete_stripe_customer_def get_prop_def destructure_def split_email_def build_email_def template_string_def
      failing_provider_def)

text \<open>Customer creation ends with an exception, not with a response.\<close>

theorem provider_exception_escapes_witness:
  "\<exists>e w calls. create_customer failing_provider
       (Obj [(''email'', Str ''a@x.com''), (''auth_id'', Str ''u1'')]) 0 = (Inl e, w, calls)"
  using provider_exception_escapes by blast

section \<open>The bulk import\<close>

text \<open>
  The loop and the decimal rendering are recursive equations without a guard on the left;
  they are unfolded by name where needed.
\<close>

declare bulk_loop.simps [simp del]

declare decimal.simps [simp del]

lemma get_prop_Inr:
  "get_prop v k = Inr x \<Longrightarrow> v \<noteq> Null \<and> v \<noteq> Undefined \<and> x = field_of v k"
  unfolding get_prop_def by (cases "v = Null"; cases "v = Undefined"; simp)

lemma bulk_inv_created:
  "bulk_inv i acc \<Longrightarrow> bulk_inv (i + 1) (acc \<lparr> created := created acc + 1 \<rparr>)"
  by (auto simp: bulk_inv_def)

lemma catch_row_Inr:
  assumes "catch_row i coupon error acc = Inr acc1"
  shows "acc1 = acc \<lparr> failed := failed acc + 1,
                       errors := errors acc @
                         [\<lparr> entry_row = i + 1,
                            entry_coupon =
                              (if truthy (field_of coupon ''name'') then field_of coupon ''name''
                               else Str (''Row '' @ decimal (i + 1))),
                            entry_error = message error \<rparr>] \<rparr>"
proof (cases "get_prop coupon ''name''")
  case (Inl e)
  with assms show ?thesis by (simp add: catch_row_def)
next
  case (Inr name)
  then have "name = field_of coupon ''name''"
    by (simp add: get_prop_Inr)
  with Inr assms show ?thesis
    by (simp add: catch_row_def Let_def)
qed

lemma bulk_inv_failed:
  assumes "bulk_inv i acc" and "catch_row i coupon error acc = Inr acc1"
  shows "bulk_inv (i + 1) acc1"
proof -
  from assms(1) have rows: "\<forall>e\<in>set (errors acc). entry_row e < i + 1"
    by (auto simp: bulk_inv_def)
  from assms(1) rows show ?thesis
    unfolding bulk_inv_def catch_row_Inr [OF assms(2)]
    by (auto simp: sorted_wrt_append)
qed

lemma bulk_loop_inv:
  "bulk_loop prov coupons i acc w calls = (Inr acc', w', calls') \<Longrightarrow>
   i \<le> length coupons \<Longrightarrow> bulk_inv i acc \<Longrightarrow> bulk_inv (length coupons) acc'"
proof (induction prov coupons i acc w calls rule: bulk_loop.induct)
  case (1 prov coupons i acc w calls)
  show ?case
  proof (cases "i < length coupons")
    case False
    with "1.prems" show ?thesis by (simp add: bulk_loop.simps)
  next
    case True
    obtain r w1 cs where t: "try_row prov (coupons ! i) w = (r, w1, cs)"
      by (cases "try_row prov (coupons ! i) w")
    show ?thesis
    proof (cases r)
      case (Inr u)
      with True t "1.prems"(1)
      have run: "bulk_loop prov coupons (i + 1) (acc \<lparr> created := created acc + 1 \<rparr>) w1 (calls @ cs)
                 = (Inr acc', w', calls')"
        by (simp add: bulk_loop.simps[of prov coupons i])
      have "bulk_inv (i + 1) (acc \<lparr> created := created acc + 1 \<rparr>)"
        using "1.prems"(3) by (rule bulk_inv_created)
      with "1.IH"(2) [of r "(w1, cs)" u w1 cs] True t Inr run
      show ?thesis by simp
    next
      case (Inl error)
      show ?thesis
      proof (cases "catch_row i (coupons ! i) error acc")
        case (Inl e)
        with True t \<open>r = Inl error\<close> "1.prems"(1) show ?thesis
          by (simp add: bulk_loop.simps[of prov coupons i])
      next
        case (Inr acc1)
        with True t \<open>r = Inl error\<close> "1.prems"(1)
        have run: "bulk_loop prov coupons (i + 1) acc1 w1 (calls @ cs) = (Inr acc', w', calls')"
          by (simp add: bulk_loop.simps[of prov coupons i])
        from "1.prems"(3) Inr have "bulk_inv (i + 1) acc1" by (rule bulk_inv_failed)
        with "1.IH"(1) [of r "(w1, cs)" error w1 cs acc1] True t \<open>r = Inl error\<close> Inr run
        show ?thesis by simp
      qed
    qed
  qed
qed

text \<open>
  One row that is not null and whose values convert: a \<open>domain\<close> or \<open>email\<close> row
  makes the one creation call of its kind and ends as the provider's call ends; any other
  type raises the error that names the type, without a call.
\<close>

lemma try_row_domain:
  assumes "coupon \<noteq> Null" and "coupon \<noteq> Undefined"
    and "field_of coupon ''type'' = Str ''domain''"
    and "has_primitive (field_of coupon ''expiresAt'')"
    and "has_primitive (field_of coupon ''discountPercent'')"
    and "has_primitive (field_of coupon ''maxSeats'')"
  shows "\<exists>params.
     try_row prov coupon w =
       (case coupons_create prov params w of (r, w1) \<Rightarrow> (r, w1, [CouponsCreate params]))
     \<and> p_max_redemptions params = NumberOf (field_of coupon ''maxSeats'')
     \<and> p_metadata params = [(''allowed_domain'', field_of coupon ''domain'')]
     \<and> p_percent_off params = NumberOf (field_of coupon ''discountPercent'')
     \<and> p_name params = field_of coupon ''name''"
proof -
  define params where "params =
     \<lparr> p_percent_off = NumberOf (field_of coupon ''discountPercent''),
       p_duration = ''forever'',
       p_max_redemptions = NumberOf (field_of coupon ''maxSeats''),
       p_redeem_by = (if truthy (field_of coupon ''expiresAt'')
                      then Some (EpochSeconds (field_of coupon ''expiresAt'')) else None),
       p_name = field_of coupon ''name'',
       p_metadata = [(''allowed_domain'', field_of coupon ''domain'')] \<rparr>"
  have "try_row prov coupon w =
       (case coupons_create prov params w of (r, w1) \<Rightarrow> (r, w1, [CouponsCreate params]))"
    using assms
    by (simp add: try_row_def get_prop_object to_number_def epoch_seconds_def Let_def params_def
        split: prod.splits sum.splits)
  then show ?thesis
    by (intro exI[of _ params]) (simp add: params_def)
qed

lemma try_row_email:
  assumes "coupon \<noteq> Null" and "coupon \<noteq> Undefined"
    and "field_of coupon ''type'' = Str ''email''"
    and "has_primitive (field_of coupon ''expiresAt'')"
    and "has_primitive (field_of coupon ''discountPercent'')"
  shows "\<exists>params.
     try_row prov coupon w =
       (case coupons_create prov params w of (r, w1) \<Rightarrow> (r, w1, [CouponsCreate params]))
     \<and> p_max_redemptions params = Literal 1
     \<and> p_metadata params = [(''allowed_email'', field_of coupon ''email'')]
     \<and> p_percent_off params = NumberOf (field_of coupon ''discountPercent'')
     \<and> p_name params = field_of coupon ''name''"
proof -
  define params where "params =
     \<lparr> p_percent_off = NumberOf (field_of coupon ''discountPercent''),
       p_duration = ''forever'',
       p_max_redemptions = Literal 1,
       p_redeem_by = (if truthy (field_of coupon ''expiresAt'')
                      then Some (EpochSeconds (field_of coupon ''expiresAt'')) else None),
       p_name = field_of coupon ''name'',
       p_metadata = [(''allowed_email'', field_of coupon ''email'')] \<rparr>"
  have "try_row prov coupon w =
       (case coupons_create prov params w of (r, w1) \<Rightarrow> (r, w1, [CouponsCreate params]))"
    using assms
    by (simp add: try_row_def get_prop_object to_number_def epoch_seconds_def Let_def params_def
        split: prod.splits sum.splits)
  then show ?thesis
    by (intro exI[of _ params]) (simp add: params_def)
qed

lemma try_row_invalid_type:
  assumes "coupon \<noteq> Null" and "coupon \<noteq> Undefined"
    and "field_of coupon ''type'' \<noteq> Str ''domain''" and "field_of coupon ''type'' \<noteq> Str ''email''"
    and "has_primitive (field_of coupon ''expiresAt'')"
    and "has_primitive (field_of coupon ''type'')"
  shows "try_row prov coupon w =
     (Inl (Error (''Invalid coupon type: '' @ to_string (field_of coupon ''type''))), w, [])"
  using assms
  by (simp add: try_row_def get_prop_object epoch_seconds_def template_string_def)

text \<open>
  A failed row that is not null gets its entry, and the loop goes on to the next row
  whether the row was created or failed.
\<close>

lemma catch_row_entry:
  assumes "coupon \<noteq> Null" and "coupon \<noteq> Undefined"
  shows "catch_row i coupon error acc =
     Inr (acc \<lparr> failed := failed acc + 1,
                errors := errors acc @
                  [\<lparr> entry_row = i + 1,
                     entry_coupon =
                       (if truthy (field_of coupon ''name'') then field_of coupon ''name''
                        else Str (''Row '' @ decimal (i + 1))),
                     entry_error = message error \<rparr>] \<rparr>)"
  using assms by (simp add: catch_row_def get_prop_object Let_def)

lemma bulk_loop_step:
  assumes "i < length coupons" and "coupons ! i \<noteq> Null" and "coupons ! i \<noteq> Undefined"
  shows "bulk_loop prov coupons i acc w calls =
     (case try_row prov (coupons ! i) w of
        (Inr u, w1, cs) \<Rightarrow>
          bulk_loop prov coupons (i + 1) (acc \<lparr> created := created acc + 1 \<rparr>) w1 (calls @ cs)
      | (Inl error, w1, cs) \<Rightarrow>
          bulk_loop prov coupons (i + 1)
            (acc \<lparr> failed := failed acc + 1,
                   errors := errors acc @
                     [\<lparr> entry_row = i + 1,
                        entry_coupon =
                          (if truthy (field_of (coupons ! i) ''name'') then field_of (coupons ! i) ''name''
                           else Str (''Row '' @ decimal (i + 1))),
                        entry_error = message error \<rparr>] \<rparr>)
            w1 (calls @ cs))"
  using assms
  by (simp add: bulk_loop.simps[of prov coupons i] catch_row_entry split: prod.splits sum.splits)

text \<open>
  A null row raises in the \<open>try\<close> and again in the \<open>catch\<close>, where the entry reads
  \<open>coupon.name\<close>; the second exception ends the loop at that row.
\<close>

lemma try_row_null:
  "try_row prov Null w =
     (Inl (TypeError ''Cannot read properties of null (reading 'expiresAt')''), w, [])"
  by (simp add: try_row_def get_prop_def)

lemma catch_row_null:
  "catch_row i Null error acc = Inl (TypeError ''Cannot read properties of null (reading 'name')'')"
  by (simp add: catch_row_def get_prop_def)

lemma catch_row_object:
  "coupon \<noteq> Null \<Longrightarrow> coupon \<noteq> Undefined \<Longrightarrow> \<exists>acc1. catch_row i coupon error acc = Inr acc1"
  by (simp add: catch_row_def get_prop_def Let_def)

lemma bulk_loop_null_row:
  assumes "i < length coupons" and "coupons ! i = Null"
  shows "bulk_loop prov coupons i acc w calls =
     (Inl (TypeError ''Cannot read properties of null (reading 'name')''), w, calls)"
  using assms by (simp add: bulk_loop.simps[of prov coupons i] try_row_null catch_row_null)

lemma bulk_loop_total:
  "(\<forall>k<length coupons. i \<le> k \<longrightarrow> coupons ! k \<noteq> Null \<and> coupons ! k \<noteq> Undefined) \<Longrightarrow>
   \<exists>acc' w' calls'. bulk_loop prov coupons i acc w calls = (Inr acc', w', calls')"
proof (induction prov coupons i acc w calls rule: bulk_loop.induct)
  case (1 prov coupons i acc w calls)
  show ?case
  proof (cases "i < length coupons")
    case False
    then show ?thesis by (simp add: bulk_loop.simps)
  next
    case True
    from "1.prems" have later:
      "\<forall>k<length coupons. i + 1 \<le> k \<longrightarrow> coupons ! k \<noteq> Null \<and> coupons ! k \<noteq> Undefined"
      by simp
    from "1.prems" True have here: "coupons ! i \<noteq> Null" "coupons ! i \<noteq> Undefined"
      by simp_all
    obtain r w1 cs where t: "try_row prov (coupons ! i) w = (r, w1, cs)"
      by (cases "try_row prov (coupons ! i) w")
    show ?thesis
    proof (cases r)
      case (Inr u)
      from "1.IH"(2) [of r "(w1, cs)" u w1 cs] True t Inr later
      show ?thesis by (simp add: bulk_loop.simps[of prov coupons i])
    next
      case (Inl error)
      from catch_row_object [OF here] obtain acc1
        where c: "catch_row i (coupons ! i) error acc = Inr acc1" by blast
      from "1.IH"(1) [of r "(w1, cs)" error w1 cs acc1] True t Inl c later
      show ?thesis by (simp add: bulk_loop.simps[of prov coupons i])
    qed
  qed
qed

text \<open>
  On a list without a null row the loop is the import of the specification: the rows one
  after the other, none of them ending the import, and the handler answers 200 with the
  summary of that import.
\<close>

lemma bulk_loop_import_rows:
  "(\<forall>k<length coupons. i \<le> k \<longrightarrow> coupons ! k \<noteq> Null \<and> coupons ! k \<noteq> Undefined) \<Longrightarrow>
   bulk_loop prov coupons i acc w calls =
     (case import_rows prov i (drop i coupons) acc w calls of (a, w', cs) \<Rightarrow> (Inr a, w', cs))"
proof (induction prov coupons i acc w calls rule: bulk_loop.induct)
  case (1 prov coupons i acc w calls)
  show ?case
  proof (cases "i < length coupons")
    case False
    then show ?thesis by (simp add: bulk_loop.simps)
  next
    case True
    from "1.prems" have later:
      "\<forall>k<length coupons. i + 1 \<le> k \<longrightarrow> coupons ! k \<noteq> Null \<and> coupons ! k \<noteq> Undefined"
      by simp
    from "1.prems" True have here: "coupons ! i \<noteq> Null" "coupons ! i \<noteq> Undefined"
      by simp_all
    from True have d: "drop i coupons = coupons ! i # drop (i + 1) coupons"
      by (simp add: Cons_nth_drop_Suc)
    obtain r w1 cs where t: "try_row prov (coupons ! i) w = (r, w1, cs)"
      by (cases "try_row prov (coupons ! i) w")
    show ?thesis
    proof (cases r)
      case (Inr u)
      from "1.IH"(2) [of r "(w1, cs)" u w1 cs] True t Inr later
      show ?thesis
        by (simp add: bulk_loop_step [OF True here] d)
    next
      case (Inl error)
      from "1.IH"(1) [of r "(w1, cs)" error w1 cs, OF True _ Inl _ catch_row_entry [OF here]] t later
      show ?thesis
        by (simp add: bulk_loop_step [OF True here] d Inl)
    qed
  qed
qed

lemma coupons_bulk_import_rows:
  assumes "payload \<noteq> Null" and "payload \<noteq> Undefined"
    and "field_of payload ''coupons'' = Arr rows" and "rows \<noteq> []"
    and "Null \<notin> set rows" and "Undefined \<notin> set rows"
  shows "coupons_bulk prov payload w =
     (case import_rows prov 0 rows \<lparr> created = 0, failed = 0, errors = [] \<rparr> w [] of
        (a, w', cs) \<Rightarrow>
          (Inr (Response 200 (BulkBody
             \<lparr> bulk_created = created a, bulk_failed = failed a, bulk_total = length rows,
               bulk_errors = (if length (errors a) > 0 then Value (errors a) else Absent) \<rparr>)),
           w', cs))"
proof -
  from assms(5,6)
  have "\<forall>k<length rows. 0 \<le> k \<longrightarrow> rows ! k \<noteq> Null \<and> rows ! k \<noteq> Undefined"
    by (metis nth_mem)
  from bulk_loop_import_rows [OF this, of prov "\<lparr> created = 0, failed = 0, errors = [] \<rparr>" w "[]"]
  have "bulk_loop prov rows 0 \<lparr> created = 0, failed = 0, errors = [] \<rparr> w [] =
     (case import_rows prov 0 rows \<lparr> created = 0, failed = 0, errors = [] \<rparr> w [] of
        (a, w', cs) \<Rightarrow> (Inr a, w', cs))"
    by simp
  with assms(1-4) show ?thesis
    by (simp add: coupons_bulk_def destructure_object split: prod.splits)
qed

lemma bulk_inv_start: "bulk_inv 0 \<lparr> created = 0, failed = 0, errors = [] \<rparr>"
  by (simp add: bulk_inv_def)

lemma bulk_inv_summary:
  assumes "bulk_inv n acc"
  shows "errors_consistent
           \<lparr> bulk_created = created acc, bulk_failed = failed acc, bulk_total = n,
             bulk_errors = (if length (errors acc) > 0 then Value (errors acc) else Absent) \<rparr>"
  using assms by (auto simp: bulk_inv_def errors_consistent_def)

text \<open>
  Claim C9. For a request whose \<open>coupons\<close> is a non-empty list: whenever the import
  returns its summary, the total is the length of the list, created plus failed is the
  total, and the \<open>errors\<close> property is left out when nothing failed and is otherwise a
  non-empty list with exactly \<open>failed\<close> entries whose row numbers increase strictly and
  lie between 1 and the total. The summary is returned whenever no row is null.
\<close>

theorem bulk_errors_consistent:
  assumes "payload \<noteq> Null" and "payload \<noteq> Undefined"
    and "field_of payload ''coupons'' = Arr rows" and "rows \<noteq> []"
  shows "(\<forall>b w1 calls.
            coupons_bulk prov payload w = (Inr (Response 200 (BulkBody b)), w1, calls) \<longrightarrow>
              bulk_total b = length rows \<and> bulk_created b + bulk_failed b = length rows
              \<and> errors_consistent b)
       \<and> (Null \<notin> set rows \<and> Undefined \<notin> set rows \<longrightarrow>
            (\<exists>b w1 calls.
               coupons_bulk prov payload w = (Inr (Response 200 (BulkBody b)), w1, calls)))"
proof (rule conjI)
  show "\<forall>b w1 calls.
            coupons_bulk prov payload w = (Inr (Response 200 (BulkBody b)), w1, calls) \<longrightarrow>
              bulk_total b = length rows \<and> bulk_created b + bulk_failed b = length rows
              \<and> errors_consistent b"
  proof (intro allI impI)
  fix b w1 calls
  assume run: "coupons_bulk prov payload w = (Inr (Response 200 (BulkBody b)), w1, calls)"
  let ?start = "\<lparr> created = 0, failed = 0, errors = [] \<rparr>"
  obtain r w' calls' where l: "bulk_loop prov rows 0 ?start w [] = (r, w', calls')"
    by (cases "bulk_loop prov rows 0 ?start w []")
  show "bulk_total b = length rows \<and> bulk_created b + bulk_failed b = length rows
              \<and> errors_consistent b"
  proof (cases r)
    case (Inl e)
    with run l assms show ?thesis
      by (simp add: coupons_bulk_def destructure_object)
  next
    case (Inr acc)
    with l have "bulk_inv (length rows) acc"
      using bulk_loop_inv [of prov rows 0 ?start w "[]" acc w' calls'] bulk_inv_start by simp
    moreover from run l Inr assms
    have b: "b = \<lparr> bulk_created = created acc, bulk_failed = failed acc, bulk_total = length rows,
             bulk_errors = (if length (errors acc) > 0 then Value (errors acc) else Absent) \<rparr>"
      by (simp add: coupons_bulk_def destructure_object)
    ultimately show ?thesis
      using bulk_inv_summary [of "length rows" acc] by (simp add: bulk_inv_def)
  qed
  qed
next
  show "Null \<notin> set rows \<and> Undefined \<notin> set rows \<longrightarrow>
            (\<exists>b w1 calls.
               coupons_bulk prov payload w = (Inr (Response 200 (BulkBody b)), w1, calls))"
  proof (rule impI)
  assume "Null \<notin> set rows \<and> Undefined \<notin> set rows"
  then have "\<forall>k<length rows. 0 \<le> k \<longrightarrow> rows ! k \<noteq> Null \<and> rows ! k \<noteq> Undefined"
    by (metis nth_mem)
  from bulk_loop_total [OF this, of prov "\<lparr> created = 0, failed = 0, errors = [] \<rparr>" w "[]"]
  obtain acc' w' calls'
    where "bulk_loop prov rows 0 \<lparr> created = 0, failed = 0, errors = [] \<rparr> w [] = (Inr acc', w', calls')"
    by blast
  with assms show "\<exists>b w1 calls.
               coupons_bulk prov payload w = (Inr (Response 200 (BulkBody b)), w1, calls)"
    by (simp add: coupons_bulk_def destructure_object)
  qed
qed

text \<open>The theorem at a list of four rows, two of which fail.\<close>

theorem bulk_errors_consistent_witness:
  "\<exists>b w1 calls.
     coupons_bulk (counting_provider [])
       (Obj [(''coupons'', Arr [domain_row, bogus_row, taken_row, email_row])]) 0 =
         (Inr (Response 200 (BulkBody b)), w1, calls)
     \<and> bulk_total b = 4 \<and> bulk_created b + bulk_failed b = 4 \<and> errors_consistent b"
proof -
  let ?rows = "[domain_row, bogus_row, taken_row, email_row]"
  let ?payload = "Obj [(''coupons'', Arr ?rows)]"
  have p: "?payload \<noteq> Null" "?payload \<noteq> Undefined" "field_of ?payload ''coupons'' = Arr ?rows"
      "?rows \<noteq> []"
    by simp_all
  have n: "Null \<notin> set ?rows \<and> Undefined \<notin> set ?rows"
    by (simp add: domain_row_def bogus_row_def taken_row_def email_row_def)
  have len: "length ?rows = 4" by simp
  from bulk_errors_consistent [OF p, of "counting_provider []" 0] n
  obtain b w1 calls where
    run: "coupons_bulk (counting_provider []) ?payload 0 = (Inr (Response 200 (BulkBody b)), w1, calls)"
    by blast
  with bulk_errors_consistent [OF p, of "counting_provider []" 0]
  have "bulk_total b = length ?rows \<and> bulk_created b + bulk_failed b = length ?rows
        \<and> errors_consistent b"
    by blast
  with run len show ?thesis by metis
qed

text \<open>The summary of that import, computed.\<close>

lemma bulk_import_example:
  "fst (coupons_bulk (counting_provider [])
          (Obj [(''coupons'', Arr [domain_row, bogus_row, taken_row, email_row])]) 0) =
     Inr (Response 200 (BulkBody
       \<lparr> bulk_created = 2, bulk_failed = 2, bulk_total = 4,
         bulk_errors = Value
           [\<lparr> entry_row = 2, entry_coupon = Str ''Row 2'', entry_error = ''Invalid coupon type: bogus'' \<rparr>,
            \<lparr> entry_row = 3, entry_coupon = Str ''taken'', entry_error = ''name taken'' \<rparr>] \<rparr>))"
  by (simp add: coupons_bulk_def get_prop_def destructure_def bulk_loop.simps try_row_def catch_row_def
      to_number_def epoch_seconds_def template_string_def
      counting_provider_def domain_row_def bogus_row_def taken_row_def email_row_def decimal.simps)

text \<open>
  Claim C2, evaluated at a list with a null row. The import of a valid domain row, a null
  row and a valid email row creates the first coupon and then answers 500: the null row
  is not reported as a failed row, and the third row is never processed (the only
  provider call is the creation for the first row).
\<close>

theorem null_row_aborts_import:
  "coupons_bulk (counting_provider []) (Obj [(''coupons'', Arr [domain_row, Null, email_row])]) 0 =
     (Inr (Response 500 (ErrorBody ''Cannot read properties of null (reading 'name')'')), 1,
      [CouponsCreate
         \<lparr> p_percent_off = NumberOf (Num 20), p_duration = ''forever'',
           p_max_redemptions = NumberOf (Num 5), p_redeem_by = None, p_name = Str ''Team'',
           p_metadata = [(''allowed_domain'', Str ''x.com'')] \<rparr>])"
  by (simp add: coupons_bulk_def get_prop_def destructure_def bulk_loop.simps try_row_def catch_row_def
      to_number_def epoch_seconds_def template_string_def
      counting_provider_def domain_row_def email_row_def)

text \<open>The status of that response.\<close>

theorem null_row_aborts_import_witness:
  "status (projr (fst (coupons_bulk (counting_provider [])
      (Obj [(''coupons'', Arr [domain_row, Null, email_row])]) 0))) = 500"
  using null_row_aborts_import by simp

end
